theory Spec2Isabelle
  imports Complex_Main "HOL-Library.Sublist"
begin

section \<open>Data model of the multi-agent coordinator\<close>

text \<open>
  The embedding follows \<^verbatim>\<open>multi-agent-coordinator.py\<close>. Python floats are read as
  real numbers, \<^verbatim>\<open>time.time()\<close> and \<^verbatim>\<open>uuid.uuid4()\<close> are inputs of the
  functions that call them, and strings are lists of 8-bit characters (ASCII text).
  Fields of the dataclasses that no modelled function reads (the agent's description and
  resource requirements, the task's parent, subtasks, dependencies and deadline) are left
  out. Where two dataclasses share a field name, the field carries the class as a prefix.
  The counter \<^verbatim>\<open>total_tasks_completed\<close> starts at 0 and is only ever incremented, so
  it is a natural number and \<^verbatim>\<open>total_tasks_completed + 1\<close> is never zero.
\<close>

datatype AgentType =
  RESEARCH | DEVELOPMENT | AUTOMATION | ANALYSIS | COMMUNICATION | CREATIVE | SYSTEM | COORDINATION

datatype TaskPriority = LOW | MEDIUM | HIGH | CRITICAL | EMERGENCY

datatype TaskStatus = PENDING | ASSIGNED | IN_PROGRESS | WAITING | COMPLETED | FAILED | CANCELLED

text \<open>\<^verbatim>\<open>TaskPriority(priority)\<close>: the enum lookup by value raises ValueError outside 1..5.\<close>

definition TaskPriority_of_int :: "int \<Rightarrow> TaskPriority option" where
  "TaskPriority_of_int n =
     (if n = 1 then Some LOW
      else if n = 2 then Some MEDIUM
      else if n = 3 then Some HIGH
      else if n = 4 then Some CRITICAL
      else if n = 5 then Some EMERGENCY
      else None)"

fun priority_value :: "TaskPriority \<Rightarrow> int" where
  "priority_value LOW = 1"
| "priority_value MEDIUM = 2"
| "priority_value HIGH = 3"
| "priority_value CRITICAL = 4"
| "priority_value EMERGENCY = 5"

fun agent_type_value :: "AgentType \<Rightarrow> string" where
  "agent_type_value RESEARCH = ''research''"
| "agent_type_value DEVELOPMENT = ''development''"
| "agent_type_value AUTOMATION = ''automation''"
| "agent_type_value ANALYSIS = ''analysis''"
| "agent_type_value COMMUNICATION = ''communication''"
| "agent_type_value CREATIVE = ''creative''"
| "agent_type_value SYSTEM = ''system''"
| "agent_type_value COORDINATION = ''coordination''"

fun status_value :: "TaskStatus \<Rightarrow> string" where
  "status_value PENDING = ''pending''"
| "status_value ASSIGNED = ''assigned''"
| "status_value IN_PROGRESS = ''in_progress''"
| "status_value WAITING = ''waiting''"
| "status_value COMPLETED = ''completed''"
| "status_value FAILED = ''failed''"
| "status_value CANCELLED = ''cancelled''"

text \<open>
  Python exceptions as values. Each carries the text that \<^verbatim>\<open>str(e)\<close> prints, except
  \<open>KeyError\<close>, which carries the missing key: \<^verbatim>\<open>str(KeyError(k))\<close> prints the key in
  single quotes. The message texts are those of CPython 3.11.
\<close>

datatype py_exception =
    TypeError string
  | KeyError string
  | AttributeError string
  | IndexError string
  | ValueError string
  | RuntimeError string
  | OperationalError string

definition quoted :: "string \<Rightarrow> string" where
  "quoted s = CHR 0x27 # s @ [CHR 0x27]"

fun exc_str :: "py_exception \<Rightarrow> string" where
  "exc_str (TypeError m) = m"
| "exc_str (KeyError k) = quoted k"
| "exc_str (AttributeError m) = m"
| "exc_str (IndexError m) = m"
| "exc_str (ValueError m) = m"
| "exc_str (RuntimeError m) = m"
| "exc_str (OperationalError m) = m"

fun exc_class :: "py_exception \<Rightarrow> string" where
  "exc_class (TypeError m) = ''TypeError''"
| "exc_class (KeyError k) = ''KeyError''"
| "exc_class (AttributeError m) = ''AttributeError''"
| "exc_class (IndexError m) = ''IndexError''"
| "exc_class (ValueError m) = ''ValueError''"
| "exc_class (RuntimeError m) = ''RuntimeError''"
| "exc_class (OperationalError m) = ''OperationalError''"

text \<open>
  Python values that travel through results, contexts and the JSON encoder. \<open>PEnum c m\<close>
  is the member \<open>m\<close> of the \<^verbatim>\<open>Enum\<close> class \<open>c\<close> and \<open>PExc e\<close> an exception object:
  neither is accepted by \<^verbatim>\<open>json.dumps\<close>.
\<close>

datatype pyval =
    PNone
  | PBool bool
  | PInt int
  | PFloat real
  | PStr string
  | PList "pyval list"
  | PDict "(string \<times> pyval) list"
  | PEnum string string
  | PExc py_exception

fun py_type_name :: "pyval \<Rightarrow> string" where
  "py_type_name PNone = ''NoneType''"
| "py_type_name (PBool b) = ''bool''"
| "py_type_name (PInt n) = ''int''"
| "py_type_name (PFloat r) = ''float''"
| "py_type_name (PStr s) = ''str''"
| "py_type_name (PList xs) = ''list''"
| "py_type_name (PDict kvs) = ''dict''"
| "py_type_name (PEnum c m) = c"
| "py_type_name (PExc e) = exc_class e"

text \<open>Truth value of a Python object, as \<^verbatim>\<open>if x:\<close> and \<^verbatim>\<open>not x\<close> read it.\<close>

fun truthy :: "pyval \<Rightarrow> bool" where
  "truthy PNone = False"
| "truthy (PBool b) = b"
| "truthy (PInt n) = (n \<noteq> 0)"
| "truthy (PFloat r) = (r \<noteq> 0)"
| "truthy (PStr s) = (s \<noteq> [])"
| "truthy (PList xs) = (xs \<noteq> [])"
| "truthy (PDict kvs) = (kvs \<noteq> [])"
| "truthy (PEnum c m) = True"
| "truthy (PExc e) = True"

text \<open>
  Whether \<^verbatim>\<open>json.dumps(v)\<close> returns: the default encoder raises TypeError on any object
  that is not None, a bool, a number, a string, a list or a dict, at any depth.
\<close>

fun json_serializable :: "pyval \<Rightarrow> bool" where
  "json_serializable PNone = True"
| "json_serializable (PBool b) = True"
| "json_serializable (PInt n) = True"
| "json_serializable (PFloat r) = True"
| "json_serializable (PStr s) = True"
| "json_serializable (PList xs) = list_all json_serializable xs"
| "json_serializable (PDict kvs) = list_all (\<lambda>kv. json_serializable (snd kv)) kvs"
| "json_serializable (PEnum c m) = False"
| "json_serializable (PExc e) = False"

text \<open>
  The objects that the encoder refuses, by type name, in the order in which it meets them
  (a list in order, a dict in insertion order). \<^verbatim>\<open>json.dumps\<close> raises on the first
  with the message \<^verbatim>\<open>Object of type T is not JSON serializable\<close>.
\<close>

fun json_offenders :: "pyval \<Rightarrow> string list" where
  "json_offenders PNone = []"
| "json_offenders (PBool b) = []"
| "json_offenders (PInt n) = []"
| "json_offenders (PFloat r) = []"
| "json_offenders (PStr s) = []"
| "json_offenders (PList xs) = concat (map json_offenders xs)"
| "json_offenders (PDict kvs) = concat (map (\<lambda>kv. json_offenders (snd kv)) kvs)"
| "json_offenders (PEnum c m) = [c]"
| "json_offenders (PExc e) = [exc_class e]"

definition json_type_error :: "pyval \<Rightarrow> py_exception" where
  "json_type_error v =
     (case json_offenders v of
        c # cs \<Rightarrow> TypeError (''Object of type '' @ c @ '' is not JSON serializable'')
      | [] \<Rightarrow> TypeError ''Object is not JSON serializable'')"

text \<open>
  The task context is the dict the caller supplies; its recognised keys are typed, and
  \<open>None\<close> stands for an absent key.
\<close>

record TaskContext =
  required_capabilities :: "string list option"
  ctx_specializations :: "string list option"
  estimated_subtasks :: "int option"

record Agent =
  agent_id :: string
  agent_type :: AgentType
  agent_name :: string
  capabilities :: "string list"
  specializations :: "string list"
  current_task :: "string option"
  agent_status :: string
  load_factor :: real
  success_rate :: real
  last_active :: real
  total_tasks_completed :: nat
  average_completion_time :: real
  preferred_models :: "string list option"

record Task =
  task_id :: string
  task_title :: string
  task_description :: string
  task_type :: string
  priority :: TaskPriority
  task_status :: TaskStatus
  created_at :: real
  updated_at :: real
  assigned_agent :: "string option"
  task_context :: TaskContext
  task_result :: pyval
  error_message :: "string option"
  estimated_duration :: real
  actual_duration :: "real option"

section \<open>Agent bookkeeping\<close>

text \<open>The agent part of \<^verbatim>\<open>_assign_task_to_agent\<close>.\<close>

definition assign_agent :: "string \<Rightarrow> Agent \<Rightarrow> Agent" where
  "assign_agent tid agent =
     agent\<lparr>current_task := Some tid,
           agent_status := ''assigned'',
           load_factor := min 1.0 (load_factor agent + 0.3)\<rparr>"

text \<open>The agent part of the \<^verbatim>\<open>finally\<close> block of \<^verbatim>\<open>_execute_task\<close>.\<close>

definition cleanup_agent :: "Agent \<Rightarrow> Agent" where
  "cleanup_agent agent =
     agent\<lparr>current_task := None,
           agent_status := ''idle'',
           load_factor := max 0.0 (load_factor agent - 0.3),
           total_tasks_completed := total_tasks_completed agent + 1\<rparr>"

datatype agent_op = Assign string | Cleanup

fun apply_agent_op :: "Agent \<Rightarrow> agent_op \<Rightarrow> Agent" where
  "apply_agent_op agent (Assign tid) = assign_agent tid agent"
| "apply_agent_op agent Cleanup = cleanup_agent agent"

section \<open>Configuration and small Python helpers\<close>

definition load_balance_threshold :: real where
  "load_balance_threshold = 0.8"

definition max_agents_per_task :: nat where
  "max_agents_per_task = 5"

text \<open>\<^verbatim>\<open>d.get(key, default)\<close> on a typed key: the default stands in for an absent key.\<close>

definition py_get_default :: "'a \<Rightarrow> 'a option \<Rightarrow> 'a" where
  "py_get_default d v = (case v of None \<Rightarrow> d | Some x \<Rightarrow> x)"

text \<open>\<^verbatim>\<open>sum\<close> over a list of booleans counts the true ones.\<close>

definition py_sum_bools :: "bool list \<Rightarrow> nat" where
  "py_sum_bools bs = sum_list (map (\<lambda>b. if b then 1 else 0) bs)"

text \<open>\<^verbatim>\<open>str.lower\<close> on ASCII text; \<^verbatim>\<open>sub in s\<close> is \<^const>\<open>sublist\<close>.\<close>

definition ascii_lower :: "char \<Rightarrow> char" where
  "ascii_lower c =
     (let n = (of_char c :: nat) in if 65 \<le> n \<and> n \<le> 90 then char_of (n + 32) else c)"

definition str_lower :: "string \<Rightarrow> string" where
  "str_lower s = map ascii_lower s"

section \<open>Agent selection\<close>

text \<open>The static table of \<^verbatim>\<open>_agent_can_handle_task\<close>, with \<^verbatim>\<open>.get(task_type, [])\<close>.\<close>

definition task_type_mapping :: "string \<Rightarrow> AgentType list" where
  "task_type_mapping tt =
     (if tt = ''research'' then [RESEARCH, ANALYSIS]
      else if tt = ''development'' then [DEVELOPMENT, AUTOMATION]
      else if tt = ''analysis'' then [ANALYSIS, RESEARCH]
      else if tt = ''automation'' then [AUTOMATION, SYSTEM]
      else if tt = ''communication'' then [COMMUNICATION, CREATIVE]
      else if tt = ''creative'' then [CREATIVE, COMMUNICATION]
      else if tt = ''system'' then [SYSTEM, AUTOMATION]
      else [])"

definition agent_can_handle_task :: "Agent \<Rightarrow> Task \<Rightarrow> bool" where
  "agent_can_handle_task agent task =
     (let task_requirements = py_get_default [] (required_capabilities (task_context task)) in
      if task_requirements \<noteq> [] then
        (let agent_capabilities = set (capabilities agent);
             required = set task_requirements;
             overlap = card (agent_capabilities \<inter> required);
             coverage = (if required \<noteq> {} then real overlap / real (card required) else 1.0)
         in coverage \<ge> 0.5)
      else
        (let suitable_types = task_type_mapping (task_type task) in
         agent_type agent \<in> set suitable_types \<or> agent_type agent = COORDINATION))"

text \<open>
  \<^verbatim>\<open>_calculate_agent_score\<close>. The score is a float built by a chain of float
  operations. \<open>rnd\<close> is the rounding that a float operation applies to its exact result;
  with \<open>rnd\<close> the identity the arithmetic is exact. \<open>now\<close> is the reading of
  \<^verbatim>\<open>time.time()\<close> taken while this agent is scored. The product
  \<^verbatim>\<open>overlap * 15\<close> is integer arithmetic.
\<close>

definition calculate_agent_score :: "(real \<Rightarrow> real) \<Rightarrow> real \<Rightarrow> Agent \<Rightarrow> Task \<Rightarrow> real" where
  "calculate_agent_score rnd now agent task =
     (let score0 = 0.0;
          score1 = rnd (score0 + rnd (success_rate agent * 30));
          score2 = rnd (score1 + rnd (rnd (1.0 - load_factor agent) * 20));
          task_capabilities = set (py_get_default [] (required_capabilities (task_context task)));
          agent_capabilities = set (capabilities agent);
          score3 = (if task_capabilities \<noteq> {} then
                      (let overlap = card (task_capabilities \<inter> agent_capabilities);
                           coverage = rnd (real overlap / real (card task_capabilities))
                       in rnd (score2 + rnd (coverage * 25)))
                    else score2);
          task_specializations = set (py_get_default [] (ctx_specializations (task_context task)));
          agent_specializations = set (specializations agent);
          overlap = card (task_specializations \<inter> agent_specializations);
          score4 = (if task_specializations \<noteq> {} \<and> overlap > 0
                    then rnd (score3 + real (overlap * 15))
                    else score3);
          time_since_active = rnd (now - last_active agent);
          score5 = (if time_since_active < 3600 then rnd (score4 + 10) else score4);
          score6 = (if average_completion_time agent > 0
                       \<and> priority task \<in> set [HIGH, CRITICAL, EMERGENCY]
                    then (let speed_factor = min 1.0 (rnd (300 / average_completion_time agent))
                          in rnd (score5 + rnd (speed_factor * 10)))
                    else score5)
      in score6)"

text \<open>
  \<^verbatim>\<open>_select_best_agent\<close>. \<open>agents\<close> is \<^verbatim>\<open>self.agents.values()\<close> in insertion order
  and \<open>clock agent\<close> the reading of the clock while that agent is scored.
  \<^verbatim>\<open>list.sort(key=..., reverse=True)\<close> is a stable sort by descending key, which is a
  stable ascending sort on the negated key. Nothing in the body raises on a typed
  context, so the \<^verbatim>\<open>except\<close> branch (return None) has no counterpart here.
\<close>

definition available_agents :: "Agent list \<Rightarrow> Task \<Rightarrow> Agent list" where
  "available_agents agents task =
     filter (\<lambda>agent. agent_status agent = ''idle''
                    \<and> load_factor agent < load_balance_threshold
                    \<and> agent_can_handle_task agent task) agents"

definition select_best_agent ::
  "(real \<Rightarrow> real) \<Rightarrow> (Agent \<Rightarrow> real) \<Rightarrow> Agent list \<Rightarrow> Task \<Rightarrow> Agent option" where
  "select_best_agent rnd clock agents task =
     (let available = available_agents agents task in
      if available = [] then None
      else
        (let scored_agents =
               map (\<lambda>agent. (agent, calculate_agent_score rnd (clock agent) agent task)) available;
             sorted_agents = sort_key (\<lambda>x. - snd x) scored_agents
         in Some (fst (hd sorted_agents))))"

section \<open>Collaboration routing, performance tracking, progress\<close>

definition complexity_indicators :: "Task \<Rightarrow> bool list" where
  "complexity_indicators task =
     [length (task_description task) > 500,
      py_get_default 0 (estimated_subtasks (task_context task)) > 3,
      length (py_get_default [] (required_capabilities (task_context task))) > 3,
      priority task \<in> set [HIGH, CRITICAL],
      sublist ''collaboration'' (str_lower (task_description task))]"

definition task_requires_collaboration :: "Task \<Rightarrow> bool" where
  "task_requires_collaboration task = (py_sum_bools (complexity_indicators task) \<ge> 2)"

text \<open>
  \<^verbatim>\<open>_update_agent_performance\<close>: the statistics it writes on the agent. The insert into
  the metrics table comes after these writes and its failure is caught and logged.
\<close>

definition update_agent_performance :: "Agent \<Rightarrow> Task \<Rightarrow> bool \<Rightarrow> Agent" where
  "update_agent_performance agent task success =
     (let total_tasks = total_tasks_completed agent + 1;
          agent1 = (if success then
                      agent\<lparr>success_rate :=
                        ((success_rate agent * real (total_tasks_completed agent)) + 1.0)
                          / real total_tasks\<rparr>
                    else
                      agent\<lparr>success_rate :=
                        (success_rate agent * real (total_tasks_completed agent))
                          / real total_tasks\<rparr>)
      in case actual_duration task of
           None \<Rightarrow> agent1
         | Some d \<Rightarrow>
             if d \<noteq> 0 then
               (if average_completion_time agent1 = 0 then
                  agent1\<lparr>average_completion_time := d\<rparr>
                else
                  agent1\<lparr>average_completion_time :=
                    ((average_completion_time agent1 * real (total_tasks_completed agent1)) + d)
                      / real total_tasks\<rparr>)
             else agent1)"

text \<open>
  One recorded outcome, as \<^verbatim>\<open>_execute_task\<close> does it: the statistics update, then the
  \<^verbatim>\<open>finally\<close> block that releases the agent and increments its counter.
\<close>

definition record_outcome :: "Agent \<Rightarrow> Task \<Rightarrow> bool \<Rightarrow> Agent" where
  "record_outcome agent task success = cleanup_agent (update_agent_performance agent task success)"

text \<open>\<^verbatim>\<open>_calculate_task_progress\<close>, with \<open>now\<close> the reading of \<^verbatim>\<open>time.time()\<close>.\<close>

definition calculate_task_progress :: "real \<Rightarrow> Task \<Rightarrow> real" where
  "calculate_task_progress now task =
     (if task_status task = COMPLETED then 100.0
      else if task_status task = FAILED then 0.0
      else if task_status task = IN_PROGRESS then
        (let elapsed = now - created_at task in
         if estimated_duration task > 0
         then min 90.0 ((elapsed / estimated_duration task) * 100)
         else 50.0)
      else 0.0)"

section \<open>The agent catalogue and sample inputs\<close>

text \<open>The constructor call \<^verbatim>\<open>Agent(...)\<close> with the dataclass defaults.\<close>

definition new_agent ::
  "string \<Rightarrow> AgentType \<Rightarrow> string \<Rightarrow> string list \<Rightarrow> string list \<Rightarrow> string list \<Rightarrow> Agent" where
  "new_agent aid ty nm caps specs models =
     \<lparr>agent_id = aid, agent_type = ty, agent_name = nm, capabilities = caps,
      specializations = specs, current_task = None, agent_status = ''idle'',
      load_factor = 0.0, success_rate = 1.0, last_active = 0.0,
      total_tasks_completed = 0, average_completion_time = 0.0,
      preferred_models = Some models\<rparr>"

text \<open>The catalogue of \<^verbatim>\<open>_init_default_agents\<close>, in insertion order.\<close>

definition research_specialist :: Agent where
  "research_specialist = new_agent ''research_specialist'' RESEARCH ''Research Specialist''
     [''web_search'', ''data_analysis'', ''summarization'', ''fact_checking'']
     [''academic_research'', ''market_research'', ''technical_documentation'']
     [''reasoning'', ''general'']"

definition development_expert :: Agent where
  "development_expert = new_agent ''development_expert'' DEVELOPMENT ''Development Expert''
     [''code_generation'', ''debugging'', ''testing'', ''architecture_design'']
     [''python'', ''javascript'', ''system_programming'', ''web_development'']
     [''code'', ''reasoning'']"

definition automation_engineer :: Agent where
  "automation_engineer = new_agent ''automation_engineer'' AUTOMATION ''Automation Engineer''
     [''script_generation'', ''workflow_design'', ''system_integration'', ''monitoring'']
     [''bash_scripting'', ''python_automation'', ''desktop_automation'']
     [''code'', ''general'']"

definition data_analyst :: Agent where
  "data_analyst = new_agent ''data_analyst'' ANALYSIS ''Data Analyst''
     [''data_processing'', ''statistical_analysis'', ''visualization'', ''reporting'']
     [''pandas'', ''matplotlib'', ''statistical_modeling'', ''business_intelligence'']
     [''reasoning'', ''code'']"

definition communication_assistant :: Agent where
  "communication_assistant =
     new_agent ''communication_assistant'' COMMUNICATION ''Communication Assistant''
     [''content_writing'', ''email_composition'', ''social_media'', ''translation'']
     [''professional_writing'', ''technical_writing'', ''customer_service'']
     [''general'', ''reasoning'']"

definition creative_designer :: Agent where
  "creative_designer = new_agent ''creative_designer'' CREATIVE ''Creative Designer''
     [''content_creation'', ''design_thinking'', ''brainstorming'', ''visual_design'']
     [''graphic_design'', ''ui_ux'', ''creative_writing'', ''branding'']
     [''general'', ''creative'']"

definition system_administrator :: Agent where
  "system_administrator = new_agent ''system_administrator'' SYSTEM ''System Administrator''
     [''system_monitoring'', ''performance_optimization'', ''security'', ''maintenance'']
     [''linux_administration'', ''network_management'', ''security_auditing'']
     [''code'', ''general'']"

definition coordination_master :: Agent where
  "coordination_master = new_agent ''coordination_master'' COORDINATION ''Coordination Master''
     [''task_decomposition'', ''agent_selection'', ''load_balancing'', ''conflict_resolution'']
     [''project_management'', ''resource_allocation'', ''strategic_planning'']
     [''reasoning'', ''general'']"

definition default_agents :: "Agent list" where
  "default_agents =
     [research_specialist, development_expert, automation_engineer, data_analyst,
      communication_assistant, creative_designer, system_administrator, coordination_master]"

text \<open>
  The constructor call \<^verbatim>\<open>Task(...)\<close> of \<^verbatim>\<open>SubmitTask\<close>: status pending, the two
  timestamps two readings of the clock, and the dataclass defaults elsewhere.
\<close>

definition new_task ::
  "string \<Rightarrow> string \<Rightarrow> string \<Rightarrow> string \<Rightarrow> TaskPriority \<Rightarrow> real \<Rightarrow> real \<Rightarrow> TaskContext \<Rightarrow> Task" where
  "new_task tid title descr ty prio created updated ctx =
     \<lparr>task_id = tid, task_title = title, task_description = descr, task_type = ty,
      priority = prio, task_status = PENDING, created_at = created, updated_at = updated,
      assigned_agent = None, task_context = ctx, task_result = PNone,
      error_message = None, estimated_duration = 300.0, actual_duration = None\<rparr>"

definition empty_context :: TaskContext where
  "empty_context =
     \<lparr>required_capabilities = None, ctx_specializations = None, estimated_subtasks = None\<rparr>"

definition sample_task :: Task where
  "sample_task =
     new_task ''t-1'' ''Fix parser'' ''Repair the tokenizer'' ''development'' MEDIUM 0 0 empty_context"

section \<open>The coordinator's maps and its D-Bus methods\<close>

record Collaboration =
  collaboration_id :: string
  collab_title :: string
  participating_agents :: "string list"
  primary_agent :: string
  collab_task_id :: string
  collaboration_type :: string
  collab_status :: string
  collab_created_at :: real
  completed_at :: "real option"
  shared_context :: pyval
  communication_log :: "pyval list"

text \<open>
  \<^verbatim>\<open>str(uuid.uuid4())\<close>: the 128-bit value drawn by the generator, printed as 32
  lower-case hexadecimal digits in groups of 8, 4, 4, 4 and 12.
\<close>

definition hex_digit :: "nat \<Rightarrow> char" where
  "hex_digit d = ''0123456789abcdef'' ! (d mod 16)"

fun hex_digits :: "nat \<Rightarrow> nat \<Rightarrow> string" where
  "hex_digits 0 n = []"
| "hex_digits (Suc k) n = hex_digits k (n div 16) @ [hex_digit n]"

definition uuid_str :: "nat \<Rightarrow> string" where
  "uuid_str n =
     (let h = hex_digits 32 n in
      take 8 h @ ''-'' @ take 4 (drop 8 h) @ ''-'' @ take 4 (drop 12 h) @ ''-''
        @ take 4 (drop 16 h) @ ''-'' @ drop 20 h)"

text \<open>
  The maps of the coordinator that the D-Bus methods touch. \<open>task_queues\<close> holds, per
  priority, the tasks whose \<^verbatim>\<open>put\<close> has been scheduled.
\<close>

record Coordinator =
  agents :: "Agent list"
  tasks :: "string \<Rightarrow> Task option"
  collaborations :: "string \<Rightarrow> Collaboration option"
  task_queues :: "TaskPriority \<Rightarrow> Task list"

text \<open>
  \<^verbatim>\<open>SubmitTask\<close>. \<open>json_loads\<close> is \<^verbatim>\<open>json.loads\<close> read into the typed context
  (\<open>None\<close> when it raises), \<open>draw\<close> the value drawn by \<^verbatim>\<open>uuid4\<close>, \<open>t1\<close> and
  \<open>t2\<close> the two clock readings. The arguments of \<^verbatim>\<open>Task(...)\<close> are evaluated in
  order, so the priority lookup raises before the context is parsed; either exception is
  caught by the \<^verbatim>\<open>except\<close> branch, which returns the empty string before the map is
  written. After the map is written, \<^verbatim>\<open>asyncio.create_task\<close> schedules the save and
  the queue \<^verbatim>\<open>put\<close>; it raises RuntimeError when no event loop is running
  (\<open>loop_running\<close> false), and the \<^verbatim>\<open>except\<close> branch then returns the empty string
  with the task already stored. Under the coordinator's \<^verbatim>\<open>main\<close> the D-Bus methods
  are called while the event loop runs.
\<close>

definition SubmitTask ::
  "(string \<Rightarrow> TaskContext option) \<Rightarrow> bool \<Rightarrow> nat \<Rightarrow> real \<Rightarrow> real \<Rightarrow> Coordinator
     \<Rightarrow> string \<Rightarrow> string \<Rightarrow> string \<Rightarrow> int \<Rightarrow> string \<Rightarrow> string \<times> Coordinator" where
  "SubmitTask json_loads loop_running draw t1 t2 st title descr ty prio context_str =
     (let new_id = uuid_str draw in
      case TaskPriority_of_int prio of
        None \<Rightarrow> ([], st)
      | Some p \<Rightarrow>
          (case (if context_str \<noteq> [] then json_loads context_str else Some empty_context) of
             None \<Rightarrow> ([], st)
           | Some ctx \<Rightarrow>
               (let task = new_task new_id title descr ty p t1 t2 ctx;
                    st1 = st\<lparr>tasks := (tasks st)(new_id \<mapsto> task)\<rparr>
                in if loop_running then
                     (new_id, st1\<lparr>task_queues := (task_queues st)(p := task_queues st p @ [task])\<rparr>)
                   else ([], st1))))"

text \<open>
  \<^verbatim>\<open>GetTaskStatus\<close>: the fields of the JSON object it returns, or the error object.
  \<^verbatim>\<open>json.dumps\<close> raises on a result it cannot encode, and the \<^verbatim>\<open>except\<close> branch
  answers with the error object.
\<close>

datatype status_reply =
    StatusReply string string "string option" real pyval
  | ErrorReply string

definition GetTaskStatus :: "real \<Rightarrow> Coordinator \<Rightarrow> string \<Rightarrow> status_reply" where
  "GetTaskStatus now st tid =
     (case tasks st tid of
        Some task \<Rightarrow>
          if json_serializable (task_result task) then
            StatusReply tid (status_value (task_status task)) (assigned_agent task)
              (calculate_task_progress now task) (task_result task)
          else ErrorReply (exc_str (json_type_error (task_result task)))
      | None \<Rightarrow> ErrorReply ''Task not found'')"

definition empty_coordinator :: Coordinator where
  "empty_coordinator =
     \<lparr>agents = default_agents, tasks = Map.empty, collaborations = Map.empty,
      task_queues = (\<lambda>p. [])\<rparr>"

text \<open>Sample records used to evaluate the functions on concrete inputs.\<close>

definition idle_veteran :: Agent where
  "idle_veteran = development_expert\<lparr>total_tasks_completed := 1\<rparr>"

definition seasoned_agent :: Agent where
  "seasoned_agent =
     development_expert\<lparr>total_tasks_completed := 3, success_rate := 0.5,
                        average_completion_time := 10\<rparr>"

definition timed_task :: Task where
  "timed_task = sample_task\<lparr>actual_duration := Some 5\<rparr>"

definition running_task :: Task where
  "running_task = sample_task\<lparr>task_status := IN_PROGRESS, estimated_duration := 100\<rparr>"

definition urgent_task :: Task where
  "urgent_task =
     new_task ''t-2'' ''Release'' ''Ship the release'' ''development'' HIGH 0 0
       (empty_context\<lparr>estimated_subtasks := Some 5\<rparr>)"

definition sample_json_loads :: "string \<Rightarrow> TaskContext option" where
  "sample_json_loads s = (if s = ''{}'' then Some empty_context else None)"

definition spec4_task :: Task where
  "spec4_task =
     new_task ''t-5'' ''Port'' ''Port the service'' ''development'' MEDIUM 0 0
       (empty_context\<lparr>ctx_specializations :=
          Some [''python'', ''javascript'', ''system_programming'', ''web_development'']\<rparr>)"

text \<open>Two submissions for which the generator draws the same value.\<close>

definition first_submission :: "string \<times> Coordinator" where
  "first_submission =
     SubmitTask sample_json_loads True 7 0 0 empty_coordinator
       ''First'' ''First job'' ''development'' 2 []"

definition second_submission :: "string \<times> Coordinator" where
  "second_submission =
     SubmitTask sample_json_loads True 7 1 1 (snd first_submission)
       ''Second'' ''Second job'' ''development'' 2 []"

definition agent_A :: Agent where
  "agent_A = development_expert\<lparr>capabilities := [''code_generation''], success_rate := 0.9\<rparr>"

definition agent_B :: Agent where
  "agent_B = research_specialist\<lparr>capabilities := [], success_rate := 0.9\<rparr>"

definition codegen_task :: Task where
  "codegen_task =
     new_task ''t-3'' ''Generate'' ''Write the module'' ''development'' MEDIUM 0 0
       (empty_context\<lparr>required_capabilities := Some [''code_generation'']\<rparr>)"

section \<open>External capabilities, persistence and Python dictionaries\<close>

text \<open>
  The execution capability \<^verbatim>\<open>duckbot_ai.enhanced_request(description, context,
  preferred_model)\<close> either raises or returns a Python value. The database connection
  either accepts a write or raises on it.
\<close>

datatype ai_reply = AIRaises py_exception | AIReturns pyval

datatype db_write =
    SaveTask Task
  | SaveAgent Agent
  | SaveCollaboration Collaboration

record Services =
  duckbot_ai :: "(string \<Rightarrow> pyval \<Rightarrow> string \<Rightarrow> ai_reply) option"
  DUCKBOT_AVAILABLE :: bool
  db_execute :: "db_write \<Rightarrow> py_exception option"

text \<open>Sequencing of steps that may raise: the first exception ends the \<^verbatim>\<open>try\<close> body.\<close>

definition py_bind :: "py_exception + 'a \<Rightarrow> ('a \<Rightarrow> py_exception + 'b) \<Rightarrow> py_exception + 'b" where
  "py_bind m f = (case m of Inl e \<Rightarrow> Inl e | Inr x \<Rightarrow> f x)"

text \<open>
  \<^verbatim>\<open>d.get(k, default)\<close> and \<^verbatim>\<open>d[k]\<close> with a string key on an arbitrary Python
  value: only a dict has \<^verbatim>\<open>get\<close>, and only a dict can be indexed by a string.
\<close>

definition py_get :: "pyval \<Rightarrow> string \<Rightarrow> pyval \<Rightarrow> py_exception + pyval" where
  "py_get d k dflt =
     (case d of
        PDict kvs \<Rightarrow> Inr (case map_of kvs k of None \<Rightarrow> dflt | Some v \<Rightarrow> v)
      | _ \<Rightarrow> Inl (AttributeError (quoted (py_type_name d) @ '' object has no attribute ''
                                 @ quoted ''get'')))"

definition py_item :: "pyval \<Rightarrow> string \<Rightarrow> py_exception + pyval" where
  "py_item d k =
     (case d of
        PDict kvs \<Rightarrow> (case map_of kvs k of None \<Rightarrow> Inl (KeyError k) | Some v \<Rightarrow> Inr v)
      | PStr t \<Rightarrow> Inl (TypeError (''string indices must be integers, not '' @ quoted ''str''))
      | PList xs \<Rightarrow> Inl (TypeError ''list indices must be integers or slices, not str'')
      | _ \<Rightarrow> Inl (TypeError (quoted (py_type_name d) @ '' object is not subscriptable'')))"

definition py_opt_str :: "string option \<Rightarrow> pyval" where
  "py_opt_str s = (case s of None \<Rightarrow> PNone | Some x \<Rightarrow> PStr x)"

definition py_str_list :: "string list \<Rightarrow> pyval" where
  "py_str_list xs = PList (map PStr xs)"

text \<open>The items of the context dict, and \<^verbatim>\<open>dataclasses.asdict(task)\<close>: the enum
  members of \<^verbatim>\<open>priority\<close> and \<^verbatim>\<open>status\<close> are copied as they are.\<close>

definition context_items :: "TaskContext \<Rightarrow> (string \<times> pyval) list" where
  "context_items ctx =
     (case required_capabilities ctx of
        None \<Rightarrow> [] | Some rs \<Rightarrow> [(''required_capabilities'', py_str_list rs)])
     @ (case ctx_specializations ctx of
        None \<Rightarrow> [] | Some ss \<Rightarrow> [(''specializations'', py_str_list ss)])
     @ (case estimated_subtasks ctx of
        None \<Rightarrow> [] | Some n \<Rightarrow> [(''estimated_subtasks'', PInt n)])"

fun priority_name :: "TaskPriority \<Rightarrow> string" where
  "priority_name LOW = ''LOW''"
| "priority_name MEDIUM = ''MEDIUM''"
| "priority_name HIGH = ''HIGH''"
| "priority_name CRITICAL = ''CRITICAL''"
| "priority_name EMERGENCY = ''EMERGENCY''"

fun status_name :: "TaskStatus \<Rightarrow> string" where
  "status_name PENDING = ''PENDING''"
| "status_name ASSIGNED = ''ASSIGNED''"
| "status_name IN_PROGRESS = ''IN_PROGRESS''"
| "status_name WAITING = ''WAITING''"
| "status_name COMPLETED = ''COMPLETED''"
| "status_name FAILED = ''FAILED''"
| "status_name CANCELLED = ''CANCELLED''"

definition asdict_task :: "Task \<Rightarrow> pyval" where
  "asdict_task task =
     PDict [(''task_id'', PStr (task_id task)),
            (''title'', PStr (task_title task)),
            (''description'', PStr (task_description task)),
            (''task_type'', PStr (task_type task)),
            (''priority'', PEnum ''TaskPriority'' (priority_name (priority task))),
            (''status'', PEnum ''TaskStatus'' (status_name (task_status task))),
            (''created_at'', PFloat (created_at task)),
            (''updated_at'', PFloat (updated_at task)),
            (''assigned_agent'', py_opt_str (assigned_agent task)),
            (''parent_task'', PNone),
            (''subtasks'', PNone),
            (''dependencies'', PNone),
            (''context'', PDict (context_items (task_context task))),
            (''result'', task_result task),
            (''error_message'', py_opt_str (error_message task)),
            (''estimated_duration'', PFloat (estimated_duration task)),
            (''actual_duration'',
               (case actual_duration task of None \<Rightarrow> PNone | Some d \<Rightarrow> PFloat d)),
            (''deadline'', PNone)]"

text \<open>
  \<^verbatim>\<open>_save_task\<close>, \<^verbatim>\<open>_save_agent\<close> and \<^verbatim>\<open>_save_collaboration\<close>: the arguments of
  the SQL statement are built first, in order, so \<^verbatim>\<open>json.dumps\<close> raises TypeError
  before the database is reached; then the write itself may raise. The result is the
  exception raised, if any. The context of a task and the string lists of an agent always
  encode.
\<close>

definition save_task :: "Services \<Rightarrow> Task \<Rightarrow> py_exception option" where
  "save_task sv task =
     (if json_serializable (task_result task) then db_execute sv (SaveTask task)
      else Some (json_type_error (task_result task)))"

definition save_agent :: "Services \<Rightarrow> Agent \<Rightarrow> py_exception option" where
  "save_agent sv agent = db_execute sv (SaveAgent agent)"

definition save_collaboration :: "Services \<Rightarrow> Collaboration \<Rightarrow> py_exception option" where
  "save_collaboration sv collaboration =
     (if \<not> json_serializable (py_str_list (participating_agents collaboration)) then
        Some (json_type_error (py_str_list (participating_agents collaboration)))
      else if \<not> json_serializable (shared_context collaboration) then
        Some (json_type_error (shared_context collaboration))
      else if \<not> json_serializable (PList (communication_log collaboration)) then
        Some (json_type_error (PList (communication_log collaboration)))
      else db_execute sv (SaveCollaboration collaboration))"

section \<open>Assignment\<close>

text \<open>
  \<^verbatim>\<open>_assign_task_to_agent\<close>: both objects are written before the two saves, so they
  keep the new values when a save raises. The result carries the exception, if any.
\<close>

definition assign_task_to_agent ::
  "Services \<Rightarrow> real \<Rightarrow> Task \<Rightarrow> Agent \<Rightarrow> Task \<times> Agent \<times> py_exception option" where
  "assign_task_to_agent sv now task agent =
     (let task1 = task\<lparr>assigned_agent := Some (agent_id agent),
                       task_status := ASSIGNED,
                       updated_at := now\<rparr>;
          agent1 = assign_agent (task_id task) agent
      in (task1, agent1,
          (case save_task sv task1 of
             Some e \<Rightarrow> Some e
           | None \<Rightarrow> save_agent sv agent1)))"



section \<open>Single-agent execution\<close>

text \<open>
  \<^verbatim>\<open>_execute_single_agent_task\<close>. Every exception of the body is caught and turned
  into a result dict, so the function always returns.
\<close>

definition preferred_model_of :: "Agent \<Rightarrow> string" where
  "preferred_model_of agent =
     (case preferred_models agent of Some (m # ms) \<Rightarrow> m | _ \<Rightarrow> ''local'')"

definition call_ai :: "Services \<Rightarrow> string \<Rightarrow> pyval \<Rightarrow> string \<Rightarrow> py_exception + pyval" where
  "call_ai sv description ctx model =
     (case duckbot_ai sv of
        None \<Rightarrow> Inl (AttributeError (quoted ''NoneType'' @ '' object has no attribute ''
                                  @ quoted ''enhanced_request''))
      | Some ai \<Rightarrow> (case ai description ctx model of AIRaises e \<Rightarrow> Inl e | AIReturns v \<Rightarrow> Inr v))"

definition execute_single_agent_task :: "Services \<Rightarrow> Task \<Rightarrow> Agent \<Rightarrow> pyval" where
  "execute_single_agent_task sv task agent =
     (if duckbot_ai sv = None \<or> \<not> DUCKBOT_AVAILABLE sv then
        PDict [(''error'', PStr ''DuckBot AI not available'')]
      else
        (let enhanced_context =
               PDict (context_items (task_context task)
                      @ [(''agent_capabilities'', py_str_list (capabilities agent)),
                         (''agent_specializations'', py_str_list (specializations agent)),
                         (''task_id'', PStr (task_id task)),
                         (''agent_id'', PStr (agent_id agent))]);
             preferred_model = preferred_model_of agent;
             body =
               py_bind (call_ai sv (task_description task) enhanced_context preferred_model)
                 (\<lambda>result.
                    py_bind (py_get result ''success'' PNone)
                      (\<lambda>ok.
                         if truthy ok then
                           py_bind (py_item result ''result'')
                             (\<lambda>r. Inr (PDict [(''success'', PBool True),
                                                (''result'', r),
                                                (''agent_id'', PStr (agent_id agent)),
                                                (''execution_type'', PStr ''single_agent'')]))
                         else
                           py_bind (py_get result ''error'' (PStr ''Unknown error''))
                             (\<lambda>err. Inr (PDict [(''success'', PBool False),
                                                  (''error'', err),
                                                  (''agent_id'', PStr (agent_id agent))]))))
         in case body of
              Inr r \<Rightarrow> r
            | Inl e \<Rightarrow> PDict [(''success'', PBool False),
                               (''error'', PStr (exc_str e)),
                               (''agent_id'', PStr (agent_id agent))]))"

section \<open>Collaboration\<close>

text \<open>
  The loop of \<^verbatim>\<open>_select_collaboration_agents\<close> over \<^verbatim>\<open>self.agents.values()\<close>: an
  agent other than the primary that is idle, below the load threshold and brings a missing
  capability is added, until nothing is missing (\<^verbatim>\<open>break\<close>) or the limit is reached.
\<close>

fun collaboration_loop :: "Agent \<Rightarrow> Agent list \<Rightarrow> string set \<Rightarrow> Agent list \<Rightarrow> Agent list" where
  "collaboration_loop primary [] missing additional = additional"
| "collaboration_loop primary (agent # rest) missing additional =
     (if agent_id agent \<noteq> agent_id primary
         \<and> agent_status agent = ''idle''
         \<and> load_factor agent < load_balance_threshold
         \<and> length additional < max_agents_per_task - 1
      then
        (if set (capabilities agent) \<inter> missing \<noteq> {} then
           (let additional1 = additional @ [agent];
                missing1 = missing - set (capabilities agent)
            in if missing1 = {} then additional1
               else collaboration_loop primary rest missing1 additional1)
         else collaboration_loop primary rest missing additional)
      else collaboration_loop primary rest missing additional)"

definition select_collaboration_agents :: "Agent list \<Rightarrow> Task \<Rightarrow> Agent \<Rightarrow> Agent list" where
  "select_collaboration_agents ags task primary =
     (let required = set (py_get_default [] (required_capabilities (task_context task)));
          missing = required - set (capabilities primary)
      in if missing \<noteq> {} then collaboration_loop primary ags missing [] else [])"

fun role_assignments :: "AgentType \<Rightarrow> string" where
  "role_assignments RESEARCH = ''researcher''"
| "role_assignments DEVELOPMENT = ''developer''"
| "role_assignments AUTOMATION = ''automator''"
| "role_assignments ANALYSIS = ''analyst''"
| "role_assignments COMMUNICATION = ''communicator''"
| "role_assignments CREATIVE = ''creative_lead''"
| "role_assignments SYSTEM = ''system_specialist''"
| "role_assignments COORDINATION = ''specialist''"

text \<open>
  \<^verbatim>\<open>_assign_collaboration_roles\<close>: \<^verbatim>\<open>roles[k] = v\<close> replaces the value of a key that
  is present and appends a new key otherwise. \<^verbatim>\<open>agents[0]\<close> raises on an empty list.
\<close>

definition dict_set :: "(string \<times> pyval) list \<Rightarrow> string \<Rightarrow> pyval \<Rightarrow> (string \<times> pyval) list" where
  "dict_set kvs k v =
     (if k \<in> set (map fst kvs) then map (\<lambda>kv. if fst kv = k then (k, v) else kv) kvs
      else kvs @ [(k, v)])"

definition assign_collaboration_roles :: "Agent list \<Rightarrow> py_exception + pyval" where
  "assign_collaboration_roles ags =
     (case ags of
        [] \<Rightarrow> Inl (IndexError ''list index out of range'')
      | first # others \<Rightarrow>
          Inr (PDict (foldl (\<lambda>roles agent.
                               dict_set roles (agent_id agent)
                                 (PStr (role_assignments (agent_type agent))))
                            [(agent_id first, PStr ''coordinator'')] others)))"

text \<open>
  \<^verbatim>\<open>_parse_subtasks\<close> on ASCII text: \<^verbatim>\<open>split\<close> at newlines, \<^verbatim>\<open>strip\<close>, the test
  for a list-like prefix, \<^verbatim>\<open>lstrip\<close> of the bullet characters, the filler subtasks
  for agents without one, and the cut to the number of agents. The bullet character
  outside ASCII is not part of the character type. A subtask is the pair of its
  description and its details. \<^verbatim>\<open>split\<close> raises AttributeError on anything but a
  string.
\<close>

definition is_py_space :: "char \<Rightarrow> bool" where
  "is_py_space c = ((of_char c :: nat) \<in> {9, 10, 11, 12, 13, 28, 29, 30, 31, 32, 133, 160})"

definition py_strip :: "string \<Rightarrow> string" where
  "py_strip s = rev (dropWhile is_py_space (rev (dropWhile is_py_space s)))"

definition py_lstrip_chars :: "string \<Rightarrow> string \<Rightarrow> string" where
  "py_lstrip_chars chars s = dropWhile (\<lambda>c. c \<in> set chars) s"

fun split_on :: "char \<Rightarrow> string \<Rightarrow> string list" where
  "split_on sep [] = [[]]"
| "split_on sep (c # cs) =
     (if c = sep then [] # split_on sep cs
      else (case split_on sep cs of
              l # ls \<Rightarrow> (c # l) # ls
            | [] \<Rightarrow> [[c]]))"

definition bullet_prefixes :: "string list" where
  "bullet_prefixes = [''-'', ''*'', ''1.'', ''2.'', ''3.'', ''4.'', ''5.'']"

fun parse_lines ::
  "string list \<Rightarrow> (string \<times> string) list \<Rightarrow> (string \<times> string) option
     \<Rightarrow> (string \<times> string) list \<times> (string \<times> string) option" where
  "parse_lines [] subtasks current = (subtasks, current)"
| "parse_lines (raw # rest) subtasks current =
     (let line = py_strip raw in
      if list_ex (\<lambda>p. prefix p line) bullet_prefixes then
        parse_lines rest
          (case current of Some c \<Rightarrow> subtasks @ [c] | None \<Rightarrow> subtasks)
          (Some (py_lstrip_chars ''-*0123456789. '' line, []))
      else if current \<noteq> None \<and> line \<noteq> [] then
        parse_lines rest subtasks
          (map_option (\<lambda>c. (fst c, snd c @ '' '' @ line)) current)
      else parse_lines rest subtasks current)"

function pad_subtasks :: "(string \<times> string) list \<Rightarrow> Agent list \<Rightarrow> (string \<times> string) list" where
  "pad_subtasks subtasks ags =
     (if length subtasks < length ags then
        pad_subtasks
          (subtasks @ [(''Support task for '' @ agent_name (ags ! length subtasks),
                        ''Provide assistance and support for the main task'')])
          ags
      else subtasks)"
  by pat_completeness auto
termination
  by (relation "measure (\<lambda>(subtasks, ags). length ags - length subtasks)") auto

definition parse_subtasks :: "pyval \<Rightarrow> Agent list \<Rightarrow> py_exception + (string \<times> string) list" where
  "parse_subtasks decomposition_text ags =
     (case decomposition_text of
        PStr text \<Rightarrow>
          (case parse_lines (split_on (CHR 0x0A) text) [] None of
             (subtasks, current) \<Rightarrow>
               Inr (take (length ags)
                      (pad_subtasks
                         (case current of Some c \<Rightarrow> subtasks @ [c] | None \<Rightarrow> subtasks) ags)))
      | v \<Rightarrow> Inl (AttributeError (quoted (py_type_name v) @ '' object has no attribute ''
                                 @ quoted ''split'')))"

text \<open>\<^verbatim>\<open>_execute_subtask\<close>: an exception of the call is caught and returned as a dict.\<close>

definition execute_subtask :: "Services \<Rightarrow> string \<times> string \<Rightarrow> Agent \<Rightarrow> pyval" where
  "execute_subtask sv subtask agent =
     (let ctx = PDict [(''subtask_description'', PStr (fst subtask)),
                       (''subtask_details'', PStr (snd subtask)),
                       (''agent_role'', PStr (agent_type_value (agent_type agent))),
                       (''agent_capabilities'', py_str_list (capabilities agent))]
      in case call_ai sv (''Execute this subtask: '' @ fst subtask @ ''. '' @ snd subtask)
                ctx (preferred_model_of agent) of
           Inr result \<Rightarrow> result
         | Inl e \<Rightarrow> PDict [(''success'', PBool False), (''error'', PStr (exc_str e))])"

fun py_map :: "('a \<Rightarrow> py_exception + 'b) \<Rightarrow> 'a list \<Rightarrow> py_exception + 'b list" where
  "py_map f [] = Inr []"
| "py_map f (x # xs) = py_bind (f x) (\<lambda>y. py_bind (py_map f xs) (\<lambda>ys. Inr (y # ys)))"

text \<open>
  \<^verbatim>\<open>_execute_hierarchical_collaboration\<close>. The result pairs the returned dict with the
  collaboration object as the call leaves it. \<open>hierarchical_phases\<close> is the body up to
  the integration request: \<open>Inr (Inl r)\<close> is the early return after a decomposition that
  did not succeed, \<open>Inr (Inr (results, ctx, final))\<close> carries the gathered subtask
  results, the integration context and the integration reply. \<^verbatim>\<open>asyncio.gather\<close> with
  \<^verbatim>\<open>return_exceptions=True\<close> hands back one value per subtask, in order.
\<close>

definition hierarchical_error :: "py_exception \<Rightarrow> pyval" where
  "hierarchical_error e =
     PDict [(''success'', PBool False),
            (''error'', PStr (exc_str e)),
            (''execution_type'', PStr ''hierarchical_collaboration'')]"

definition agent_descriptor :: "Collaboration \<Rightarrow> Agent \<Rightarrow> py_exception + pyval" where
  "agent_descriptor collaboration agent =
     py_bind (py_item (shared_context collaboration) ''agent_roles'')
       (\<lambda>roles. py_bind (py_item roles (agent_id agent))
          (\<lambda>role. Inr (PDict [(''id'', PStr (agent_id agent)),
                              (''type'', PStr (agent_type_value (agent_type agent))),
                              (''capabilities'', py_str_list (capabilities agent)),
                              (''role'', role)])))"

definition subtask_entry :: "Agent \<times> pyval \<Rightarrow> pyval" where
  "subtask_entry ar =
     PDict [(''agent'', PStr (agent_id (fst ar))),
            (''result'', (case snd ar of
                            PExc e \<Rightarrow> PDict [(''error'', PStr (exc_str e))]
                          | r \<Rightarrow> r))]"

definition hierarchical_phases ::
  "Services \<Rightarrow> Collaboration \<Rightarrow> Task \<Rightarrow> Agent list
     \<Rightarrow> py_exception + (pyval + (pyval list \<times> pyval \<times> pyval))" where
  "hierarchical_phases sv collaboration task ags =
     (case ags of
        [] \<Rightarrow> Inl (IndexError ''list index out of range'')
      | primary # others \<Rightarrow>
          py_bind (py_map (agent_descriptor collaboration) ags)
            (\<lambda>available.
          py_bind (call_ai sv
                     (''As the coordinating agent, decompose this task into subtasks for the available agents: ''
                        @ task_description task)
                     (PDict [(''task'', asdict_task task), (''available_agents'', PList available)])
                     ''reasoning'')
            (\<lambda>decomposition_result.
          py_bind (py_get decomposition_result ''success'' PNone)
            (\<lambda>ok.
               if \<not> truthy ok then
                 Inr (Inl (PDict [(''success'', PBool False),
                                  (''error'', PStr ''Task decomposition failed'')]))
               else
                 py_bind (py_item decomposition_result ''result'')
                   (\<lambda>r.
                 py_bind (py_item r ''content'')
                   (\<lambda>content.
                 py_bind (parse_subtasks content others)
                   (\<lambda>subtasks.
                      (let subtask_results =
                             map (\<lambda>sa. execute_subtask sv (fst sa) (snd sa)) (zip subtasks others);
                           integration_context =
                             PDict [(''original_task'', PStr (task_description task)),
                                    (''subtask_results'',
                                       PList (map subtask_entry (zip others subtask_results)))]
                       in py_bind (call_ai sv
                                     ''Integrate the subtask results into a final solution for the original task''
                                     integration_context ''reasoning'')
                            (\<lambda>final_result.
                               Inr (Inr (subtask_results, integration_context, final_result)))))))))))"

definition execute_hierarchical_collaboration ::
  "Services \<Rightarrow> real \<Rightarrow> Collaboration \<Rightarrow> Task \<Rightarrow> Agent list \<Rightarrow> pyval \<times> Collaboration" where
  "execute_hierarchical_collaboration sv log_time collaboration task ags =
     (case hierarchical_phases sv collaboration task ags of
        Inl e \<Rightarrow> (hierarchical_error e, collaboration)
      | Inr (Inl early) \<Rightarrow> (early, collaboration)
      | Inr (Inr (subtask_results, integration_context, final_result)) \<Rightarrow>
          (let collaboration1 =
                 collaboration\<lparr>communication_log :=
                   communication_log collaboration
                     @ [PDict [(''timestamp'', PFloat log_time),
                               (''type'', PStr ''integration''),
                               (''content'', integration_context)]]\<rparr>
           in case save_collaboration sv collaboration1 of
                Some e \<Rightarrow> (hierarchical_error e, collaboration1)
              | None \<Rightarrow>
                  (case py_bind (py_get final_result ''success'' PNone)
                          (\<lambda>ok. if truthy ok then py_item final_result ''result''
                                 else Inr (PDict [(''error'', PStr ''Integration failed'')])) of
                     Inl e \<Rightarrow> (hierarchical_error e, collaboration1)
                   | Inr integrated \<Rightarrow>
                       (PDict [(''success'', PBool True),
                               (''result'', integrated),
                               (''collaboration_id'', PStr (collaboration_id collaboration1)),
                               (''participating_agents'', py_str_list (map agent_id ags)),
                               (''execution_type'', PStr ''hierarchical_collaboration''),
                               (''subtask_results'', PList subtask_results)],
                        collaboration1))))"

text \<open>
  The clock readings and the uuid draw that one execution of a task consumes.
\<close>

record ExecClock =
  start_time :: real
  end_time :: real
  collab_created_time :: real
  collab_log_time :: real
  collab_completed_time :: real
  collab_draw :: nat

text \<open>
  \<^verbatim>\<open>_execute_collaborative_task\<close>. The result pairs the returned dict with the
  collaboration object that \<^verbatim>\<open>self.collaborations\<close> holds under the new id when the
  call ends (\<open>None\<close> if the body raised before the object was stored). \<open>ags\<close> is
  \<^verbatim>\<open>self.agents.values()\<close>.
\<close>

definition collaborative_error :: "py_exception \<Rightarrow> pyval" where
  "collaborative_error e =
     PDict [(''success'', PBool False),
            (''error'', PStr (exc_str e)),
            (''execution_type'', PStr ''collaborative'')]"

definition execute_collaborative_task ::
  "Services \<Rightarrow> ExecClock \<Rightarrow> Agent list \<Rightarrow> Task \<Rightarrow> Agent \<Rightarrow> pyval \<times> Collaboration option" where
  "execute_collaborative_task sv clock ags task primary =
     (let additional_agents = select_collaboration_agents ags task primary;
          all_agents = primary # additional_agents
      in case assign_collaboration_roles all_agents of
           Inl e \<Rightarrow> (collaborative_error e, None)
         | Inr roles \<Rightarrow>
             (let collaboration =
                    \<lparr>collaboration_id = uuid_str (collab_draw clock),
                     collab_title = ''Collaboration for: '' @ task_title task,
                     participating_agents = map agent_id all_agents,
                     primary_agent = agent_id primary,
                     collab_task_id = task_id task,
                     collaboration_type = ''hierarchical'',
                     collab_status = ''active'',
                     collab_created_at = collab_created_time clock,
                     completed_at = None,
                     shared_context = PDict [(''original_task'', asdict_task task),
                                             (''agent_roles'', roles)],
                     communication_log = []\<rparr>
              in case save_collaboration sv collaboration of
                   Some e \<Rightarrow> (collaborative_error e, Some collaboration)
                 | None \<Rightarrow>
                     (case execute_hierarchical_collaboration sv (collab_log_time clock)
                             collaboration task all_agents of
                        (result, collaboration1) \<Rightarrow>
                          (let collaboration2 =
                                 collaboration1\<lparr>collab_status := ''completed'',
                                                completed_at := Some (collab_completed_time clock)\<rparr>
                           in case save_collaboration sv collaboration2 of
                                Some e \<Rightarrow> (collaborative_error e, Some collaboration2)
                              | None \<Rightarrow> (result, Some collaboration2)))))"

section \<open>Task execution\<close>

text \<open>
  \<^verbatim>\<open>_execute_task\<close>. \<open>finish_task\<close> is the \<^verbatim>\<open>finally\<close> block: it releases the agent
  and saves both objects; an exception of these saves leaves the coroutine. The outcome
  holds the task and the agent as the call leaves them, the collaboration it stored, the
  task object after each assignment to \<^verbatim>\<open>task.status\<close>, in order, and the exception
  that left the coroutine, if any. The two routines that produce the result catch their
  own exceptions, so only the two saves at the start can take the body to the
  \<^verbatim>\<open>except\<close> branch. The memory hook that ends the \<^verbatim>\<open>finally\<close> block catches its
  own exceptions and writes nothing that is modelled here.
\<close>

record ExecOutcome =
  final_task :: Task
  final_agent :: Agent
  stored_collaboration :: "Collaboration option"
  task_writes :: "Task list"
  propagated :: "py_exception option"

definition finish_task ::
  "Services \<Rightarrow> Task \<Rightarrow> Agent \<Rightarrow> Collaboration option \<Rightarrow> Task list \<Rightarrow> ExecOutcome" where
  "finish_task sv task agent collab writes =
     (let agent1 = cleanup_agent agent in
      \<lparr>final_task = task,
       final_agent = agent1,
       stored_collaboration = collab,
       task_writes = writes,
       propagated = (case save_task sv task of
                       Some e \<Rightarrow> Some e
                     | None \<Rightarrow> save_agent sv agent1)\<rparr>)"

definition execute_task ::
  "Services \<Rightarrow> ExecClock \<Rightarrow> Agent list \<Rightarrow> Task \<Rightarrow> Agent \<Rightarrow> ExecOutcome" where
  "execute_task sv clock ags task agent =
     (let task1 = task\<lparr>task_status := IN_PROGRESS\<rparr>;
          agent1 = agent\<lparr>agent_status := ''working'', last_active := start_time clock\<rparr>
      in case (case save_task sv task1 of
                 Some e \<Rightarrow> Some e
               | None \<Rightarrow> save_agent sv agent1) of
           None \<Rightarrow>
             (case (if task_requires_collaboration task1
                    then execute_collaborative_task sv clock ags task1 agent1
                    else (execute_single_agent_task sv task1 agent1, None)) of
                (result, collab) \<Rightarrow>
                  (let task2 = task1\<lparr>actual_duration := Some (end_time clock - start_time clock)\<rparr>;
                       agent2 = update_agent_performance agent1 task2 True;
                       task3 = task2\<lparr>task_status := COMPLETED,
                                     task_result := result,
                                     updated_at := end_time clock\<rparr>
                   in finish_task sv task3 agent2 collab [task1, task3]))
         | Some e \<Rightarrow>
             (let task2 = task1\<lparr>actual_duration := Some (end_time clock - start_time clock),
                               task_status := FAILED,
                               error_message := Some (exc_str e),
                               updated_at := end_time clock\<rparr>;
                  agent2 = update_agent_performance agent1 task2 False
              in finish_task sv task2 agent2 None [task1, task2]))"

section \<open>The life of one task\<close>









text \<open>Services for concrete runs.\<close>

definition failing_ai :: "string \<Rightarrow> pyval \<Rightarrow> string \<Rightarrow> ai_reply" where
  "failing_ai description ctx model =
     AIReturns (PDict [(''success'', PBool False), (''error'', PStr ''model overloaded'')])"

definition raising_ai :: "string \<Rightarrow> pyval \<Rightarrow> string \<Rightarrow> ai_reply" where
  "raising_ai description ctx model = AIRaises (RuntimeError ''connection reset'')"

definition succeeding_ai :: "string \<Rightarrow> pyval \<Rightarrow> string \<Rightarrow> ai_reply" where
  "succeeding_ai description ctx model =
     AIReturns (PDict [(''success'', PBool True),
                       (''result'', PDict [(''content'', PStr ''- first step'')])])"

definition services_with :: "(string \<Rightarrow> pyval \<Rightarrow> string \<Rightarrow> ai_reply) \<Rightarrow> Services" where
  "services_with ai =
     \<lparr>duckbot_ai = Some ai, DUCKBOT_AVAILABLE = True, db_execute = (\<lambda>w. None)\<rparr>"


definition sample_clock :: ExecClock where
  "sample_clock =
     \<lparr>start_time = 10, end_time = 25, collab_created_time = 11, collab_log_time = 20,
      collab_completed_time = 24, collab_draw = 42\<rparr>"


definition collab_task :: Task where
  "collab_task =
     new_task ''t-4'' ''Launch'' ''Plan the launch in collaboration with every team''
       ''development'' HIGH 0 0 empty_context"

definition sample_assignment :: "Task \<times> Agent" where
  "sample_assignment =
     (case assign_task_to_agent (services_with failing_ai) 6 sample_task development_expert of
        (task1, agent1, e) \<Rightarrow> (task1, agent1))"

definition collab_assignment :: "Task \<times> Agent" where
  "collab_assignment =
     (case assign_task_to_agent (services_with succeeding_ai) 6 collab_task development_expert of
        (task1, agent1, e) \<Rightarrow> (task1, agent1))"

section \<open>Theorems\<close>

lemma assign_agent_load: "load_factor (assign_agent tid a) = min 1 (load_factor a + 0.3)"
  by (simp add: assign_agent_def)

lemma cleanup_agent_load: "load_factor (cleanup_agent a) = max 0 (load_factor a - 0.3)"
  by (simp add: cleanup_agent_def)

lemma apply_agent_op_bounds:
  assumes "0 \<le> load_factor a" and "load_factor a \<le> 1"
  shows "0 \<le> load_factor (apply_agent_op a op) \<and> load_factor (apply_agent_op a op) \<le> 1"
proof (cases op)
  case (Assign tid)
  then show ?thesis using assms by (simp add: assign_agent_load)
next
  case Cleanup
  then show ?thesis using assms by (simp add: cleanup_agent_load)
qed

text \<open>
  Claim C8. An agent whose load factor starts in [0,1] keeps it in [0,1] through any
  sequence of assignments (each adds 0.3, clamped at 1.0) and completion clean-ups (each
  subtracts 0.3, floored at 0.0).
\<close>

theorem C8_load_factor_bounded:
  assumes "0 \<le> load_factor a" and "load_factor a \<le> 1"
  shows "0 \<le> load_factor (foldl apply_agent_op a ops) \<and>
         load_factor (foldl apply_agent_op a ops) \<le> 1"
  using assms
proof (induction ops arbitrary: a)
  case Nil
  then show ?case by simp
next
  case (Cons op ops)
  have "0 \<le> load_factor (apply_agent_op a op) \<and> load_factor (apply_agent_op a op) \<le> 1"
    using Cons.prems by (rule apply_agent_op_bounds)
  then show ?case using Cons.IH by simp
qed

theorem C8_load_factor_bounded_witness:
  "0 \<le> load_factor development_expert \<and> load_factor development_expert \<le> 1 \<and>
   0 \<le> load_factor (foldl apply_agent_op development_expert
          [Assign ''t-1'', Assign ''t-2'', Assign ''t-3'', Assign ''t-4'', Cleanup]) \<and>
   load_factor (foldl apply_agent_op development_expert
          [Assign ''t-1'', Assign ''t-2'', Assign ''t-3'', Assign ''t-4'', Cleanup]) \<le> 1"
proof -
  have h0: "0 \<le> load_factor development_expert" and h1: "load_factor development_expert \<le> 1"
    by (simp_all add: development_expert_def new_agent_def)
  show ?thesis
    using h0 h1
      C8_load_factor_bounded [OF h0 h1,
        of "[Assign ''t-1'', Assign ''t-2'', Assign ''t-3'', Assign ''t-4'', Cleanup]"]
    by simp
qed

lemma py_sum_bools_five:
  "(2 \<le> py_sum_bools [a, b, c, d, e]) \<longleftrightarrow>
     (a \<and> b) \<or> (a \<and> c) \<or> (a \<and> d) \<or> (a \<and> e) \<or> (b \<and> c) \<or> (b \<and> d) \<or> (b \<and> e)
     \<or> (c \<and> d) \<or> (c \<and> e) \<or> (d \<and> e)"
  by (cases a; cases b; cases c; cases d; cases e) (simp_all add: py_sum_bools_def)

text \<open>
  Claim C6. \<^verbatim>\<open>_task_requires_collaboration\<close> answers true exactly when at least two
  of the five indicators hold: the description is longer than 500 characters, the context
  gives more than 3 estimated subtasks, the context lists more than 3 required
  capabilities, the priority is high or critical, the lower-cased description contains
  the word collaboration. "At least two of five" is written as the ten pairs.
\<close>

theorem C6_task_requires_collaboration:
  "task_requires_collaboration task \<longleftrightarrow>
     (let long_description = (length (task_description task) > 500);
          many_subtasks = (\<exists>n. estimated_subtasks (task_context task) = Some n \<and> n > 3);
          many_capabilities =
            (\<exists>rs. required_capabilities (task_context task) = Some rs \<and> length rs > 3);
          urgent = (priority task = HIGH \<or> priority task = CRITICAL);
          keyword = (\<exists>pre post. str_lower (task_description task) = pre @ ''collaboration'' @ post)
      in (long_description \<and> many_subtasks) \<or> (long_description \<and> many_capabilities)
         \<or> (long_description \<and> urgent) \<or> (long_description \<and> keyword)
         \<or> (many_subtasks \<and> many_capabilities) \<or> (many_subtasks \<and> urgent)
         \<or> (many_subtasks \<and> keyword) \<or> (many_capabilities \<and> urgent)
         \<or> (many_capabilities \<and> keyword) \<or> (urgent \<and> keyword))"
proof -
  have i2: "(py_get_default 0 (estimated_subtasks (task_context task)) > 3)
              \<longleftrightarrow> (\<exists>n. estimated_subtasks (task_context task) = Some n \<and> n > 3)"
    by (cases "estimated_subtasks (task_context task)") (simp_all add: py_get_default_def)
  have i3: "(length (py_get_default [] (required_capabilities (task_context task))) > 3)
              \<longleftrightarrow> (\<exists>rs. required_capabilities (task_context task) = Some rs \<and> length rs > 3)"
    by (cases "required_capabilities (task_context task)") (simp_all add: py_get_default_def)
  have i4: "(priority task \<in> set [HIGH, CRITICAL]) \<longleftrightarrow> (priority task = HIGH \<or> priority task = CRITICAL)"
    by simp
  have i5: "sublist ''collaboration'' (str_lower (task_description task))
              \<longleftrightarrow> (\<exists>pre post. str_lower (task_description task) = pre @ ''collaboration'' @ post)"
    by (simp only: sublist_def)
  show ?thesis
    unfolding task_requires_collaboration_def complexity_indicators_def py_sum_bools_five i2 i3 i4 i5 Let_def
    by (rule refl)
qed

theorem C6_task_requires_collaboration_witness:
  "task_requires_collaboration urgent_task \<and> \<not> task_requires_collaboration sample_task"
  using C6_task_requires_collaboration [of urgent_task]
    C6_task_requires_collaboration [of sample_task]
  by (simp add: urgent_task_def sample_task_def new_task_def empty_context_def)

lemma update_agent_performance_success_rate:
  "success_rate (update_agent_performance agent task success)
     = (success_rate agent * real (total_tasks_completed agent) + (if success then 1 else 0))
         / real (total_tasks_completed agent + 1)"
  by (simp add: update_agent_performance_def Let_def add.commute split: option.splits)

lemma update_agent_performance_total:
  "total_tasks_completed (update_agent_performance agent task success) = total_tasks_completed agent"
  by (simp add: update_agent_performance_def Let_def split: option.splits)

lemma update_agent_performance_average:
  "average_completion_time (update_agent_performance agent task success)
     = (case actual_duration task of
          None \<Rightarrow> average_completion_time agent
        | Some d \<Rightarrow>
            if d = 0 then average_completion_time agent
            else if average_completion_time agent = 0 then d
            else (average_completion_time agent * real (total_tasks_completed agent) + d)
                   / real (total_tasks_completed agent + 1))"
  by (simp add: update_agent_performance_def Let_def add.commute split: option.splits)

lemma cleanup_agent_fields:
  "success_rate (cleanup_agent a) = success_rate a"
  "average_completion_time (cleanup_agent a) = average_completion_time a"
  "total_tasks_completed (cleanup_agent a) = total_tasks_completed a + 1"
  "agent_status (cleanup_agent a) = ''idle''"
  "current_task (cleanup_agent a) = None"
  by (simp_all add: cleanup_agent_def)

text \<open>
  Claim C7 as stated fails on the average: an agent with one recorded task and an average
  of 0 gets the new duration itself as its average, not the weighted mean.
\<close>

theorem C7_counterexample:
  "actual_duration timed_task = Some 5 \<and>
   average_completion_time (record_outcome idle_veteran timed_task True)
     \<noteq> (average_completion_time idle_veteran * real (total_tasks_completed idle_veteran) + 5)
         / real (total_tasks_completed idle_veteran + 1)"
  by (simp add: record_outcome_def cleanup_agent_def update_agent_performance_def
      idle_veteran_def timed_task_def development_expert_def new_agent_def sample_task_def
      new_task_def)

text \<open>
  Claim C7, amended. After one recorded outcome the success rate is
  (s*n + (1 if success else 0)) / (n+1) and the counter is n+1. The average completion
  time is (a*n + d) / (n+1) when the task has a non-zero duration d and the prior average
  a is not 0; it is d itself when the prior average is 0; and it is unchanged when the
  duration is absent or 0.
\<close>

theorem C7_record_outcome:
  "success_rate (record_outcome agent task success)
     = (success_rate agent * real (total_tasks_completed agent) + (if success then 1 else 0))
         / real (total_tasks_completed agent + 1)
   \<and> total_tasks_completed (record_outcome agent task success) = total_tasks_completed agent + 1
   \<and> (\<forall>d. actual_duration task = Some d \<and> d \<noteq> 0 \<and> average_completion_time agent \<noteq> 0 \<longrightarrow>
         average_completion_time (record_outcome agent task success)
           = (average_completion_time agent * real (total_tasks_completed agent) + d)
               / real (total_tasks_completed agent + 1))
   \<and> (\<forall>d. actual_duration task = Some d \<and> d \<noteq> 0 \<and> average_completion_time agent = 0 \<longrightarrow>
         average_completion_time (record_outcome agent task success) = d)
   \<and> (actual_duration task = None \<or> actual_duration task = Some 0 \<longrightarrow>
         average_completion_time (record_outcome agent task success)
           = average_completion_time agent)"
  unfolding record_outcome_def cleanup_agent_fields update_agent_performance_success_rate
    update_agent_performance_total update_agent_performance_average
  by (auto split: option.splits)

theorem C7_record_outcome_witness:
  "actual_duration timed_task = Some 5 \<and> (5::real) \<noteq> 0
   \<and> average_completion_time seasoned_agent \<noteq> 0
   \<and> average_completion_time idle_veteran = 0
   \<and> success_rate (record_outcome seasoned_agent timed_task True) = 5 / 8
   \<and> total_tasks_completed (record_outcome seasoned_agent timed_task True) = 4
   \<and> average_completion_time (record_outcome seasoned_agent timed_task True) = 35 / 4
   \<and> average_completion_time (record_outcome idle_veteran timed_task True) = 5
   \<and> actual_duration sample_task = None
   \<and> average_completion_time (record_outcome seasoned_agent sample_task False) = 10"
  using C7_record_outcome [of seasoned_agent timed_task True]
    C7_record_outcome [of idle_veteran timed_task True]
    C7_record_outcome [of seasoned_agent sample_task False]
  by (simp add: seasoned_agent_def idle_veteran_def timed_task_def sample_task_def
      development_expert_def new_agent_def new_task_def)

text \<open>
  Claim C9 as stated fails for a task that is neither completed, failed nor in progress:
  a pending task with a positive estimate reports 0, not the elapsed share.
\<close>

theorem C9_counterexample:
  "task_status sample_task \<noteq> COMPLETED \<and> task_status sample_task \<noteq> FAILED \<and>
   estimated_duration sample_task > 0 \<and>
   calculate_task_progress 120 sample_task
     \<noteq> min 90 ((120 - created_at sample_task) / estimated_duration sample_task * 100)"
  by (simp add: calculate_task_progress_def sample_task_def new_task_def)

text \<open>
  Claim C9, amended. The progress that \<^verbatim>\<open>GetTaskStatus\<close> reports is 100 for a
  completed task, 0 for a failed one, min(90, elapsed/estimated_duration*100) for a task
  in progress with a positive estimate and 50 for one in progress without, and 0 in every
  other status (pending, assigned, waiting, cancelled). A task in progress with estimate
  100 reports 40 at elapsed 40 and 90 at elapsed 1000.
\<close>

theorem C9_progress:
  "(tasks st tid = Some task \<and> json_serializable (task_result task) \<longrightarrow>
      (\<exists>s a r. GetTaskStatus now st tid = StatusReply tid s a (calculate_task_progress now task) r))
   \<and> (task_status task = COMPLETED \<longrightarrow> calculate_task_progress now task = 100)
   \<and> (task_status task = FAILED \<longrightarrow> calculate_task_progress now task = 0)
   \<and> (task_status task = IN_PROGRESS \<and> estimated_duration task > 0 \<longrightarrow>
        calculate_task_progress now task
          = min 90 ((now - created_at task) / estimated_duration task * 100))
   \<and> (task_status task = IN_PROGRESS \<and> \<not> estimated_duration task > 0 \<longrightarrow>
        calculate_task_progress now task = 50)
   \<and> (task_status task \<in> {PENDING, ASSIGNED, WAITING, CANCELLED} \<longrightarrow>
        calculate_task_progress now task = 0)
   \<and> (task_status task = IN_PROGRESS \<and> estimated_duration task = 100 \<and> now - created_at task = 40
        \<longrightarrow> calculate_task_progress now task = 40)
   \<and> (task_status task = IN_PROGRESS \<and> estimated_duration task = 100 \<and> now - created_at task = 1000
        \<longrightarrow> calculate_task_progress now task = 90)"
  by (auto simp add: calculate_task_progress_def GetTaskStatus_def)

theorem C9_progress_witness:
  "task_status running_task = IN_PROGRESS \<and> estimated_duration running_task = 100
   \<and> calculate_task_progress 40 running_task = 40
   \<and> calculate_task_progress 1000 running_task = 90
   \<and> task_status sample_task = PENDING
   \<and> calculate_task_progress 40 sample_task = 0"
  using C9_progress [of empty_coordinator "''t-1''" running_task 40]
    C9_progress [of empty_coordinator "''t-1''" running_task 1000]
    C9_progress [of empty_coordinator "''t-1''" sample_task 40]
  by (simp add: running_task_def sample_task_def new_task_def)













text \<open>
  \<^verbatim>\<open>self.tasks[task_id] = task\<close> is an unconditional store: the code never checks that
  the id is unused. A submission whose uuid draw repeats an earlier one returns the same id
  and replaces the stored task.
\<close>

lemma SubmitTask_repeated_draw:
  "fst second_submission = fst first_submission
   \<and> map_option task_title (tasks (snd first_submission) (fst second_submission)) = Some ''First''
   \<and> map_option task_title (tasks (snd second_submission) (fst second_submission)) = Some ''Second''"
  by (simp add: first_submission_def second_submission_def SubmitTask_def Let_def
      TaskPriority_of_int_def new_task_def)




lemma hd_sort_key_first_min:
  "xs \<noteq> [] \<Longrightarrow>
     \<exists>pre post. xs = pre @ hd (sort_key f xs) # post
       \<and> (\<forall>y\<in>set pre. f (hd (sort_key f xs)) < f y)
       \<and> (\<forall>y\<in>set post. f (hd (sort_key f xs)) \<le> f y)"
proof (induction xs)
  case Nil
  then show ?case by simp
next
  case (Cons x xs)
  show ?case
  proof (cases "xs = []")
    case True
    show ?thesis unfolding True
      by (rule exI [of _ "[]"], rule exI [of _ "[]"]) simp
  next
    case False
    define h where "h = hd (sort_key f xs)"
    from False have ne: "sort_key f xs \<noteq> []"
      by (metis length_sort list.size(3) length_0_conv)
    then obtain t where st: "sort_key f xs = h # t"
      unfolding h_def by (cases "sort_key f xs") simp_all
    from Cons.IH [OF False] obtain pre post where
      xs: "xs = pre @ h # post" and
      lt: "\<forall>y\<in>set pre. f h < f y" and
      le: "\<forall>y\<in>set post. f h \<le> f y"
      unfolding h_def by blast
    show ?thesis
    proof (cases "f x \<le> f h")
      case True
      then have hd_x: "hd (sort_key f (x # xs)) = x"
        by (simp add: st)
      have "\<forall>y\<in>set xs. f x \<le> f y"
      proof
        fix y assume "y \<in> set xs"
        then have "y \<in> set pre \<or> y = h \<or> y \<in> set post" using xs by auto
        then have "f h \<le> f y" using lt le by auto
        then show "f x \<le> f y" using True by simp
      qed
      then have "x # xs = [] @ x # xs \<and> (\<forall>y\<in>set []. f x < f y) \<and> (\<forall>y\<in>set xs. f x \<le> f y)"
        by simp
      then show ?thesis unfolding hd_x by blast
    next
      case False
      then have hd_h: "hd (sort_key f (x # xs)) = h"
        by (simp add: st)
      have "x # xs = (x # pre) @ h # post" using xs by simp
      moreover have "\<forall>y\<in>set (x # pre). f h < f y" using lt False by auto
      ultimately show ?thesis unfolding hd_h using le by blast
    qed
  qed
qed

lemma select_best_agent_first_max:
  assumes "select_best_agent rnd clock ags task = Some a"
  shows "\<exists>pre post. available_agents ags task = pre @ a # post
           \<and> (\<forall>b\<in>set pre. calculate_agent_score rnd (clock b) b task < calculate_agent_score rnd (clock a) a task)
           \<and> (\<forall>b\<in>set post. calculate_agent_score rnd (clock b) b task \<le> calculate_agent_score rnd (clock a) a task)"
proof -
  define av where "av = available_agents ags task"
  define g where "g = (\<lambda>agent. (agent, calculate_agent_score rnd (clock agent) agent task))"
  define f where "f = (\<lambda>x :: Agent \<times> real. - snd x)"
  from assms have ne: "av \<noteq> []" and a: "a = fst (hd (sort_key f (map g av)))"
    by (auto simp add: select_best_agent_def Let_def av_def g_def f_def split: if_splits)
  from ne have "map g av \<noteq> []" by simp
  from hd_sort_key_first_min [OF this, of f] obtain pre post where
    eq: "map g av = pre @ hd (sort_key f (map g av)) # post" and
    lt: "\<forall>y\<in>set pre. f (hd (sort_key f (map g av))) < f y" and
    le: "\<forall>y\<in>set post. f (hd (sort_key f (map g av))) \<le> f y"
    by blast
  from eq obtain pre' h' post' where
    av: "av = pre' @ h' # post'" and pre: "pre = map g pre'"
    and h: "hd (sort_key f (map g av)) = g h'" and post: "post = map g post'"
    by (auto simp add: map_eq_append_conv map_eq_Cons_conv)
  have ah: "a = h'" using a h by (simp add: g_def)
  have "\<forall>b\<in>set pre'. calculate_agent_score rnd (clock b) b task < calculate_agent_score rnd (clock a) a task"
    using lt unfolding h pre ah by (simp add: f_def g_def)
  moreover have "\<forall>b\<in>set post'. calculate_agent_score rnd (clock b) b task \<le> calculate_agent_score rnd (clock a) a task"
    using le unfolding h post ah by (simp add: f_def g_def)
  ultimately show ?thesis using av ah unfolding av_def by blast
qed

lemma select_best_agent_available:
  "select_best_agent rnd clock ags task = Some a \<Longrightarrow> a \<in> set (available_agents ags task)"
  using select_best_agent_first_max [of rnd clock ags task a] by auto

lemma select_best_agent_None:
  "select_best_agent rnd clock ags task = None \<longleftrightarrow> available_agents ags task = []"
  by (simp add: select_best_agent_def Let_def)

lemma calculate_agent_score_closed_form:
  "calculate_agent_score (\<lambda>x. x) now agent task =
     success_rate agent * 30
     + (1 - load_factor agent) * 20
     + (if set (py_get_default [] (required_capabilities (task_context task))) = {} then 0
        else real (card (set (py_get_default [] (required_capabilities (task_context task)))
                         \<inter> set (capabilities agent)))
             / real (card (set (py_get_default [] (required_capabilities (task_context task)))))) * 25
     + real (card (set (py_get_default [] (ctx_specializations (task_context task)))
                   \<inter> set (specializations agent))) * 15
     + (if now - last_active agent < 3600 then 10 else 0)
     + (if average_completion_time agent > 0 \<and> priority task \<in> {HIGH, CRITICAL, EMERGENCY}
        then min 1 (300 / average_completion_time agent) * 10 else 0)"
  by (cases "0 < average_completion_time agent"; cases "priority task")
     (simp_all add: calculate_agent_score_def Let_def)

lemma available_agents_eligible:
  assumes "a \<in> set (available_agents ags task)"
  shows "a \<in> set ags \<and> agent_status a = ''idle'' \<and> load_factor a < 0.8
         \<and> agent_can_handle_task a task"
  using assms by (simp add: available_agents_def load_balance_threshold_def)

lemma agent_can_handle_task_cases:
  "agent_can_handle_task a task =
     (case required_capabilities (task_context task) of
        Some (r # rs) \<Rightarrow>
          real (card (set (capabilities a) \<inter> set (r # rs))) / real (card (set (r # rs))) \<ge> 0.5
      | _ \<Rightarrow> agent_type a \<in> set (task_type_mapping (task_type task))
               \<or> agent_type a = COORDINATION)"
  by (simp add: agent_can_handle_task_def py_get_default_def Let_def
      split: option.splits list.splits)

text \<open>
  Claim C1. Any agent that \<^verbatim>\<open>_select_best_agent\<close> returns is one of the given agents,
  is idle, has a load factor below 0.8 and matches the task: when the context declares a
  non-empty list of required capabilities, the agent covers at least half of the required
  set; otherwise its type is in the static table for the task type or it is the
  coordination type. Given two idle agents A (capabilities code_generation) and B (no
  capabilities), both with success rate 0.9 and load 0, and a task that requires
  code_generation, the selector returns A, in either order of the two. This holds for
  every float rounding and every reading of the clock.
\<close>

theorem C1_selected_agent_eligible:
  "(select_best_agent rnd clock ags task = Some a \<longrightarrow>
      a \<in> set ags \<and> agent_status a = ''idle'' \<and> load_factor a < 0.8
      \<and> (case required_capabilities (task_context task) of
            Some (r # rs) \<Rightarrow>
              real (card (set (capabilities a) \<inter> set (r # rs))) / real (card (set (r # rs)))
                \<ge> 0.5
          | _ \<Rightarrow> agent_type a \<in> set (task_type_mapping (task_type task))
                   \<or> agent_type a = COORDINATION))
   \<and> (agent_status A = ''idle'' \<and> agent_status B = ''idle''
        \<and> load_factor A = 0 \<and> load_factor B = 0
        \<and> success_rate A = 0.9 \<and> success_rate B = 0.9
        \<and> capabilities A = [''code_generation''] \<and> capabilities B = []
        \<and> required_capabilities (task_context task') = Some [''code_generation'']
      \<longrightarrow> select_best_agent rnd clock [A, B] task' = Some A
          \<and> select_best_agent rnd clock [B, A] task' = Some A)"
proof (intro conjI impI)
  assume sel: "select_best_agent rnd clock ags task = Some a"
  then have av: "a \<in> set (available_agents ags task)"
    by (rule select_best_agent_available)
  from available_agents_eligible [OF av]
  show "a \<in> set ags" and "agent_status a = ''idle''" and "load_factor a < 0.8"
    by simp_all
  from available_agents_eligible [OF av] have "agent_can_handle_task a task" by simp
  then show "case required_capabilities (task_context task) of
            Some (r # rs) \<Rightarrow>
              real (card (set (capabilities a) \<inter> set (r # rs))) / real (card (set (r # rs)))
                \<ge> 0.5
          | _ \<Rightarrow> agent_type a \<in> set (task_type_mapping (task_type task))
                   \<or> agent_type a = COORDINATION"
    by (simp only: agent_can_handle_task_cases)
next
  assume ex: "agent_status A = ''idle'' \<and> agent_status B = ''idle''
        \<and> load_factor A = 0 \<and> load_factor B = 0
        \<and> success_rate A = 0.9 \<and> success_rate B = 0.9
        \<and> capabilities A = [''code_generation''] \<and> capabilities B = []
        \<and> required_capabilities (task_context task') = Some [''code_generation'']"
  have hA: "agent_can_handle_task A task'" and hB: "\<not> agent_can_handle_task B task'"
    using ex by (simp_all add: agent_can_handle_task_cases)
  have avAB: "available_agents [A, B] task' = [A]" and avBA: "available_agents [B, A] task' = [A]"
    using ex hA hB by (simp_all add: available_agents_def load_balance_threshold_def)
  show "select_best_agent rnd clock [A, B] task' = Some A"
    by (simp add: select_best_agent_def avAB)
  show "select_best_agent rnd clock [B, A] task' = Some A"
    by (simp add: select_best_agent_def avBA)
qed

theorem C1_selected_agent_eligible_witness:
  "select_best_agent (\<lambda>x. x) (\<lambda>agent. 10) [agent_A, agent_B] codegen_task = Some agent_A
   \<and> agent_A \<in> set [agent_A, agent_B] \<and> agent_status agent_A = ''idle''
   \<and> load_factor agent_A < 0.8
   \<and> real (card (set (capabilities agent_A) \<inter> set [''code_generation'']))
        / real (card (set [''code_generation''])) \<ge> 0.5"
proof -
  have ex: "agent_status agent_A = ''idle'' \<and> agent_status agent_B = ''idle''
        \<and> load_factor agent_A = 0 \<and> load_factor agent_B = 0
        \<and> success_rate agent_A = 0.9 \<and> success_rate agent_B = 0.9
        \<and> capabilities agent_A = [''code_generation''] \<and> capabilities agent_B = []
        \<and> required_capabilities (task_context codegen_task) = Some [''code_generation'']"
    by (simp add: agent_A_def agent_B_def codegen_task_def development_expert_def
        research_specialist_def new_agent_def new_task_def empty_context_def)
  have sel: "select_best_agent (\<lambda>x. x) (\<lambda>agent. 10) [agent_A, agent_B] codegen_task = Some agent_A"
    using ex C1_selected_agent_eligible [of "\<lambda>x. x" "\<lambda>agent. 10" "[agent_A, agent_B]" codegen_task agent_A
        agent_A agent_B codegen_task]
    by blast
  show ?thesis
    using sel ex C1_selected_agent_eligible [of "\<lambda>x. x" "\<lambda>agent. 10" "[agent_A, agent_B]" codegen_task agent_A
        agent_A agent_B codegen_task]
    by simp
qed

lemmas catalogue_defs =
  default_agents_def research_specialist_def development_expert_def automation_engineer_def
  data_analyst_def communication_assistant_def creative_designer_def
  system_administrator_def coordination_master_def new_agent_def

lemma available_default_sample:
  "available_agents default_agents sample_task
     = [development_expert, automation_engineer, coordination_master]"
  by (simp add: available_agents_def catalogue_defs load_balance_threshold_def
      agent_can_handle_task_def py_get_default_def task_type_mapping_def sample_task_def
      new_task_def empty_context_def)

lemma score_sample_task:
  "calculate_agent_score (\<lambda>x. x) 10 development_expert sample_task = 60"
  "calculate_agent_score (\<lambda>x. x) 10 automation_engineer sample_task = 60"
  "calculate_agent_score (\<lambda>x. x) 10 coordination_master sample_task = 60"
  by (simp_all add: calculate_agent_score_closed_form catalogue_defs py_get_default_def
      sample_task_def new_task_def empty_context_def)

lemma score_spec4_task:
  "calculate_agent_score (\<lambda>x. x) 10 development_expert spec4_task = 120"
  by (simp add: calculate_agent_score_closed_form catalogue_defs py_get_default_def
      spec4_task_def new_task_def empty_context_def)

text \<open>
  Claim C5 as stated fails on the cap: the code adds 15 for every shared specialization
  and applies no cap. For the development expert, a task that declares its four
  specializations scores 120, which is 60 more than the same kind of task that declares
  none, and more than 30 + 20 + 25 + 15 + 10 + 10, the most the terms can reach when the
  specialization term is held to 15.
\<close>

theorem C5_counterexample:
  "calculate_agent_score (\<lambda>x. x) 10 development_expert spec4_task = 120
   \<and> calculate_agent_score (\<lambda>x. x) 10 development_expert sample_task = 60
   \<and> calculate_agent_score (\<lambda>x. x) 10 development_expert spec4_task
        - calculate_agent_score (\<lambda>x. x) 10 development_expert sample_task > 15
   \<and> calculate_agent_score (\<lambda>x. x) 10 development_expert spec4_task > 30 + 20 + 25 + 15 + 10 + 10"
  by (simp add: score_sample_task score_spec4_task)

text \<open>
  Claim C5, amended. In exact arithmetic the score is success_rate*30 +
  (1-load_factor)*20 + coverage*25 (the coverage term is absent when the task requires no
  capability) + 15 for each specialization that the task and the agent share, without a
  cap, + 10 if the agent was active less than 3600 seconds ago + 10*min(1,
  300/average_completion_time) for a task of priority high, critical or emergency and a
  positive average. The code computes the score in floating point, and for every rounding
  and every reading of the clock the selector returns an eligible agent whose computed
  score is maximal, and of those the first in the order of the agent map: every eligible
  agent before it has a strictly smaller computed score, every one after it at most an
  equal one; it returns one whenever some agent is eligible.
\<close>

theorem C5_score_and_selection:
  "calculate_agent_score (\<lambda>x. x) now agent task =
     success_rate agent * 30
     + (1 - load_factor agent) * 20
     + (if set (py_get_default [] (required_capabilities (task_context task))) = {} then 0
        else real (card (set (py_get_default [] (required_capabilities (task_context task)))
                         \<inter> set (capabilities agent)))
             / real (card (set (py_get_default [] (required_capabilities (task_context task)))))) * 25
     + real (card (set (py_get_default [] (ctx_specializations (task_context task)))
                   \<inter> set (specializations agent))) * 15
     + (if now - last_active agent < 3600 then 10 else 0)
     + (if average_completion_time agent > 0 \<and> priority task \<in> {HIGH, CRITICAL, EMERGENCY}
        then min 1 (300 / average_completion_time agent) * 10 else 0)
   \<and> (\<forall>a. select_best_agent rnd clock ags task = Some a \<longrightarrow>
         (\<exists>pre post. available_agents ags task = pre @ a # post
            \<and> (\<forall>b\<in>set pre. calculate_agent_score rnd (clock b) b task
                               < calculate_agent_score rnd (clock a) a task)
            \<and> (\<forall>b\<in>set post. calculate_agent_score rnd (clock b) b task
                                \<le> calculate_agent_score rnd (clock a) a task)))
   \<and> (available_agents ags task \<noteq> [] \<longrightarrow> (\<exists>a. select_best_agent rnd clock ags task = Some a))"
proof (intro conjI allI impI)
  fix a assume "select_best_agent rnd clock ags task = Some a"
  then show "\<exists>pre post. available_agents ags task = pre @ a # post
            \<and> (\<forall>b\<in>set pre. calculate_agent_score rnd (clock b) b task
                               < calculate_agent_score rnd (clock a) a task)
            \<and> (\<forall>b\<in>set post. calculate_agent_score rnd (clock b) b task
                                \<le> calculate_agent_score rnd (clock a) a task)"
    by (rule select_best_agent_first_max)
next
  assume "available_agents ags task \<noteq> []"
  then show "\<exists>a. select_best_agent rnd clock ags task = Some a"
    using select_best_agent_None [of rnd clock ags task] by auto
qed (rule calculate_agent_score_closed_form)

theorem C5_score_and_selection_witness:
  "calculate_agent_score (\<lambda>x. x) 10 development_expert spec4_task = 120
   \<and> available_agents default_agents sample_task
        = [development_expert, automation_engineer, coordination_master]
   \<and> select_best_agent (\<lambda>x. x) (\<lambda>agent. 10) default_agents sample_task = Some development_expert"
proof -
  note C5 = C5_score_and_selection [of 10 development_expert sample_task "\<lambda>x. x"
      "\<lambda>agent. 10" default_agents]
  have s4: "calculate_agent_score (\<lambda>x. x) 10 development_expert spec4_task = 120"
    using C5_score_and_selection [of 10 development_expert spec4_task "\<lambda>x. x"
      "\<lambda>agent. 10" default_agents]
    by (simp add: catalogue_defs py_get_default_def spec4_task_def new_task_def
        empty_context_def)
  have ne: "available_agents default_agents sample_task \<noteq> []"
    by (simp add: available_default_sample)
  from C5 ne obtain a where
    a: "select_best_agent (\<lambda>x. x) (\<lambda>agent. 10) default_agents sample_task = Some a"
    by blast
  with C5 obtain pre post where
    split: "available_agents default_agents sample_task = pre @ a # post" and
    lt: "\<forall>b\<in>set pre. calculate_agent_score (\<lambda>x. x) 10 b sample_task
                       < calculate_agent_score (\<lambda>x. x) 10 a sample_task"
    by blast
  have mem: "a \<in> {development_expert, automation_engineer, coordination_master}"
  proof -
    have "a \<in> set (available_agents default_agents sample_task)"
      using split by simp
    then show ?thesis by (simp add: available_default_sample)
  qed
  then have sa: "calculate_agent_score (\<lambda>x. x) 10 a sample_task = 60"
    using score_sample_task by auto
  have "pre = []"
  proof (rule ccontr)
    assume "pre \<noteq> []"
    then obtain b where b: "b \<in> set pre" by (cases pre) auto
    then have "b \<in> set (available_agents default_agents sample_task)"
      using split by simp
    then have "calculate_agent_score (\<lambda>x. x) 10 b sample_task = 60"
      using available_default_sample score_sample_task by auto
    with lt b sa show False by auto
  qed
  then have "a = development_expert"
    using split available_default_sample by simp
  with a s4 available_default_sample show ?thesis by simp
qed

lemma json_serializable_str_list: "json_serializable (py_str_list xs)"
  by (induction xs) (simp_all add: py_str_list_def)

lemma asdict_task_not_serializable: "\<not> json_serializable (asdict_task task)"
  by (simp add: asdict_task_def)

lemma asdict_task_type_error:
  "json_type_error (PDict [(''original_task'', asdict_task task), (''agent_roles'', roles)])
     = TypeError ''Object of type TaskPriority is not JSON serializable''"
  by (simp add: json_type_error_def asdict_task_def py_opt_str_def split: option.splits)

lemma assign_collaboration_roles_Cons:
  "\<exists>roles. assign_collaboration_roles (first # others) = Inr roles"
  by (simp add: assign_collaboration_roles_def)

lemma save_collaboration_original_task:
  "shared_context c = PDict [(''original_task'', asdict_task task), (''agent_roles'', roles)]
     \<Longrightarrow> save_collaboration sv c
           = Some (TypeError ''Object of type TaskPriority is not JSON serializable'')"
  by (simp add: save_collaboration_def json_serializable_str_list asdict_task_not_serializable
      asdict_task_type_error)

lemma collaboration_save_raises:
  "\<exists>c. execute_collaborative_task sv clock ags task primary
          = (collaborative_error
               (TypeError ''Object of type TaskPriority is not JSON serializable''), Some c)
       \<and> collab_status c = ''active'' \<and> completed_at c = None \<and> communication_log c = []"
proof -
  obtain roles where roles:
    "assign_collaboration_roles (primary # select_collaboration_agents ags task primary) = Inr roles"
    using assign_collaboration_roles_Cons by blast
  show ?thesis
    by (simp add: execute_collaborative_task_def Let_def roles save_collaboration_original_task)
qed






lemma execute_task_saves_succeed:
  assumes "\<forall>w. db_execute sv w = None" and "json_serializable (task_result task)"
  shows "map task_status (task_writes (execute_task sv clock ags task agent))
           = [IN_PROGRESS, COMPLETED]
         \<and> task_status (final_task (execute_task sv clock ags task agent)) = COMPLETED
         \<and> error_message (final_task (execute_task sv clock ags task agent)) = error_message task
         \<and> agent_status (final_agent (execute_task sv clock ags task agent)) = ''idle''"
  using assms
  by (simp add: execute_task_def Let_def finish_task_def save_task_def save_agent_def
      cleanup_agent_def split: prod.splits)















lemma sample_task_not_collaborative: "\<not> task_requires_collaboration (fst sample_assignment\<lparr>task_status := IN_PROGRESS\<rparr>)"
  by (simp add: task_requires_collaboration_def complexity_indicators_def py_sum_bools_def
      sample_assignment_def assign_task_to_agent_def Let_def sample_task_def new_task_def
      empty_context_def py_get_default_def)

lemma collab_keyword:
  "sublist ''collaboration'' (str_lower ''Plan the launch in collaboration with every team'')"
  by code_simp

lemma collab_task_collaborative: "task_requires_collaboration (fst collab_assignment\<lparr>task_status := IN_PROGRESS\<rparr>)"
  by (simp add: task_requires_collaboration_def complexity_indicators_def py_sum_bools_def
      collab_assignment_def assign_task_to_agent_def Let_def collab_task_def new_task_def
      empty_context_def py_get_default_def collab_keyword)

lemma sample_assignment_fields:
  "task_result (fst sample_assignment) = PNone"
  "error_message (fst sample_assignment) = None"
  "task_context (fst sample_assignment) = empty_context"
  "task_description (fst sample_assignment) = ''Repair the tokenizer''"
  "task_id (fst sample_assignment) = ''t-1''"
  "agent_id (snd sample_assignment) = ''development_expert''"
  "preferred_models (snd sample_assignment) = Some [''code'', ''reasoning'']"
  "success_rate (snd sample_assignment) = 1"
  "total_tasks_completed (snd sample_assignment) = 0"
  by (simp_all add: sample_assignment_def assign_task_to_agent_def Let_def sample_task_def
      new_task_def development_expert_def new_agent_def assign_agent_def)

lemma collab_assignment_fields:
  "task_result (fst collab_assignment) = PNone"
  "error_message (fst collab_assignment) = None"
  by (simp_all add: collab_assignment_def assign_task_to_agent_def Let_def collab_task_def
      new_task_def)

lemma execute_single_failing:
  "execute_single_agent_task (services_with failing_ai)
       (fst sample_assignment\<lparr>task_status := IN_PROGRESS\<rparr>) a
     = PDict [(''success'', PBool False), (''error'', PStr ''model overloaded''),
              (''agent_id'', PStr (agent_id a))]"
  by (simp add: execute_single_agent_task_def services_with_def failing_ai_def call_ai_def
      py_bind_def py_get_def py_item_def Let_def)

lemma execute_single_raising:
  "execute_single_agent_task (services_with raising_ai)
       (fst sample_assignment\<lparr>task_status := IN_PROGRESS\<rparr>) a
     = PDict [(''success'', PBool False), (''error'', PStr ''connection reset''),
              (''agent_id'', PStr (agent_id a))]"
  by (simp add: execute_single_agent_task_def services_with_def raising_ai_def call_ai_def
      py_bind_def py_get_def py_item_def Let_def)

lemma execute_task_result_single:
  assumes "\<forall>w. db_execute sv w = None" and "json_serializable (task_result task)"
    and "\<not> task_requires_collaboration (task\<lparr>task_status := IN_PROGRESS\<rparr>)"
  shows "task_result (final_task (execute_task sv clock ags task agent))
           = execute_single_agent_task sv (task\<lparr>task_status := IN_PROGRESS\<rparr>)
               (agent\<lparr>agent_status := ''working'', last_active := start_time clock\<rparr>)
         \<and> success_rate (final_agent (execute_task sv clock ags task agent))
           = (success_rate agent * real (total_tasks_completed agent) + 1)
               / real (total_tasks_completed agent + 1)"
  using assms
  by (simp add: execute_task_def Let_def finish_task_def save_task_def save_agent_def
      cleanup_agent_fields update_agent_performance_success_rate)

lemma execute_task_result_collaborative:
  assumes "\<forall>w. db_execute sv w = None" and "json_serializable (task_result task)"
    and "task_requires_collaboration (task\<lparr>task_status := IN_PROGRESS\<rparr>)"
  shows "task_result (final_task (execute_task sv clock ags task agent))
           = collaborative_error
               (TypeError ''Object of type TaskPriority is not JSON serializable'')
         \<and> (\<exists>c. stored_collaboration (execute_task sv clock ags task agent) = Some c
                \<and> collab_status c = ''active'')"
proof -
  let ?t = "task\<lparr>task_status := IN_PROGRESS\<rparr>"
  let ?a = "agent\<lparr>agent_status := ''working'', last_active := start_time clock\<rparr>"
  obtain c where c: "execute_collaborative_task sv clock ags ?t ?a
                       = (collaborative_error
                            (TypeError ''Object of type TaskPriority is not JSON serializable''),
                          Some c)"
    and act: "collab_status c = ''active''"
    using collaboration_save_raises [of sv clock ags ?t ?a] by blast
  show ?thesis
    using assms act
    by (simp add: execute_task_def Let_def finish_task_def save_task_def save_agent_def c)
qed

text \<open>
  Claim C3, evaluated on the code. With every save succeeding, an execution capability
  that answers success = false, one that raises, and a collaborative task each leave the
  task completed with no error message; the failure is only inside the result. The agent
  is released to idle and its success rate is updated as for a success.
\<close>

theorem C3_failure_reported_as_completed:
  "(let out = execute_task (services_with failing_ai) sample_clock default_agents
                (fst sample_assignment) (snd sample_assignment)
    in task_result (final_task out)
         = PDict [(''success'', PBool False), (''error'', PStr ''model overloaded''),
                  (''agent_id'', PStr ''development_expert'')]
       \<and> task_status (final_task out) = COMPLETED
       \<and> error_message (final_task out) = None
       \<and> agent_status (final_agent out) = ''idle''
       \<and> success_rate (final_agent out) = 1)
   \<and> (let out = execute_task (services_with raising_ai) sample_clock default_agents
                (fst sample_assignment) (snd sample_assignment)
    in task_result (final_task out)
         = PDict [(''success'', PBool False), (''error'', PStr ''connection reset''),
                  (''agent_id'', PStr ''development_expert'')]
       \<and> task_status (final_task out) = COMPLETED
       \<and> error_message (final_task out) = None
       \<and> agent_status (final_agent out) = ''idle''
       \<and> success_rate (final_agent out) = 1)
   \<and> (let out = execute_task (services_with failing_ai) sample_clock default_agents
                (fst collab_assignment) (snd collab_assignment)
    in task_result (final_task out)
         = collaborative_error
             (TypeError ''Object of type TaskPriority is not JSON serializable'')
       \<and> task_status (final_task out) = COMPLETED
       \<and> error_message (final_task out) = None
       \<and> agent_status (final_agent out) = ''idle'')"
proof -
  have db: "\<forall>w. db_execute (services_with ai) w = None" for ai
    by (simp add: services_with_def)
  have js: "json_serializable (task_result (fst sample_assignment))"
    and jc: "json_serializable (task_result (fst collab_assignment))"
    by (simp_all add: sample_assignment_fields collab_assignment_fields)
  note f = execute_task_saves_succeed [OF db js, of failing_ai sample_clock default_agents
      "snd sample_assignment"]
    execute_task_result_single [OF db js sample_task_not_collaborative, of failing_ai
      sample_clock default_agents "snd sample_assignment"]
  note r = execute_task_saves_succeed [OF db js, of raising_ai sample_clock default_agents
      "snd sample_assignment"]
    execute_task_result_single [OF db js sample_task_not_collaborative, of raising_ai
      sample_clock default_agents "snd sample_assignment"]
  note c = execute_task_saves_succeed [OF db jc, of failing_ai sample_clock default_agents
      "snd collab_assignment"]
    execute_task_result_collaborative [OF db jc collab_task_collaborative, of failing_ai
      sample_clock default_agents "snd collab_assignment"]
  show ?thesis
    using f r c
    by (simp add: Let_def execute_single_failing execute_single_raising
        sample_assignment_fields collab_assignment_fields)
qed

text \<open>
  Claim C4, evaluated on the code. For every task, every set of agents and every
  execution capability, \<^verbatim>\<open>_execute_collaborative_task\<close> returns the error dict of its
  \<^verbatim>\<open>except\<close> branch: the first save of the collaboration raises TypeError on the enum
  members inside \<^verbatim>\<open>asdict(task)\<close>. The collaboration stays active with an empty
  log, and neither decomposition nor integration is requested.
\<close>

theorem C4_collaboration_never_completes:
  "\<exists>c. execute_collaborative_task sv clock ags task primary
          = (PDict [(''success'', PBool False),
                    (''error'', PStr ''Object of type TaskPriority is not JSON serializable''),
                    (''execution_type'', PStr ''collaborative'')], Some c)
       \<and> collab_status c = ''active'' \<and> completed_at c = None \<and> communication_log c = []"
  using collaboration_save_raises [of sv clock ags task primary]
  by (simp add: collaborative_error_def)

end
